theory Spec2Isabelle
  imports Main
begin

section \<open>Errors, panics and strings\<close>

text \<open>
  Go errors as values.  \<open>AlreadyExists\<close> and \<open>NotFound\<close> are the two API status
  reasons the controller inspects (\<^verbatim>\<open>k8serrors.IsAlreadyExists\<close>,
  \<^verbatim>\<open>k8serrors.IsNotFound\<close>), \<open>EOF\<close> is \<^verbatim>\<open>io.EOF\<close>, and \<open>Err msg\<close> is any other error
  (transport errors, \<^verbatim>\<open>errors.New(msg)\<close>, a non-zero remote exit).
\<close>

datatype error = AlreadyExists | NotFound | EOF | Err string

definition IsAlreadyExists :: "error \<Rightarrow> bool" where
  "IsAlreadyExists e = (e = AlreadyExists)"

definition IsNotFound :: "error \<Rightarrow> bool" where
  "IsNotFound e = (e = NotFound)"

text \<open>A run-time panic of the Go program: the operation does not return to its caller.\<close>

datatype panic = IndexOutOfRange | NilDereference | TypeAssertion

text \<open>
  \<^verbatim>\<open>strconv.Itoa\<close> and the \<^verbatim>\<open>%d\<close> verb: the decimal rendering of an integer.  Go's \<^verbatim>\<open>int\<close>
  is modelled by \<open>int\<close>: the loop counters and ports below never leave the 64-bit range
  (the device loops would need more than \<open>2^63 - 50001\<close> remote commands to do so).
\<close>

definition digit_char :: "nat \<Rightarrow> char" where
  "digit_char d = ''0123456789'' ! d"

fun digits :: "nat \<Rightarrow> string" where
  "digits n = (if n < 10 then [digit_char n] else digits (n div 10) @ [digit_char (n mod 10)])"

declare digits.simps [simp del]

definition Itoa :: "int \<Rightarrow> string" where
  "Itoa i = (if i < 0 then ''-'' @ digits (nat (- i)) else digits (nat i))"

section \<open>Cluster configuration and image names\<close>

text \<open>
  \<^verbatim>\<open>ClusterConfig\<close> as built in \<^verbatim>\<open>cli/create.go\<close>.  \<open>ImageTags\<close> is a Go
  \<^verbatim>\<open>map[string]string\<close>: reading a missing key gives the empty string (\<open>tagOf\<close>).
\<close>

record ClusterConfig =
  Registry :: string
  Preset :: string
  ImageTags :: "string \<rightharpoonup> string"
  PullPolicy :: string
  ConfigNodes :: int
  TopoNodes :: int
  Partitions :: int
  PartitionSize :: int

definition tagOf :: "(string \<rightharpoonup> string) \<Rightarrow> string \<Rightarrow> string" where
  "tagOf m k = (case m k of None \<Rightarrow> '''' | Some v \<Rightarrow> v)"

text \<open>
  The controller of one cluster.  The clients are the gateway below; the status writer is
  part of the mutable state.  \<open>configsPath\<close> is the package-level directory of manifest
  templates, declared in another file of the package and therefore a field here.
\<close>

record ClusterController =
  clusterID :: string
  config :: ClusterConfig
  configsPath :: string

definition imagePrefix :: "ClusterController \<Rightarrow> string" where
  "imagePrefix c = (if Registry (config c) \<noteq> '''' then Registry (config c) @ ''/'' else '''')"

definition imageName :: "ClusterController \<Rightarrow> string \<Rightarrow> string \<Rightarrow> string" where
  "imageName c img tag = imagePrefix c @ img @ '':'' @ tag"

section \<open>The orchestration gateway and the controller state\<close>

text \<open>
  Objects returned by the orchestration platform, with the fields the controller reads:
  a container status carries whether \<^verbatim>\<open>State.Running\<close> is set, a deployment its
  \<^verbatim>\<open>Status.ReadyReplicas\<close>, a config map its \<^verbatim>\<open>BinaryData\<close>.
\<close>

record ContainerStatus =
  Running :: bool

record Pod =
  Name :: string
  ContainerStatuses :: "ContainerStatus list"

record Deployment =
  ReadyReplicas :: int

record ConfigMap =
  BinaryData :: "string \<rightharpoonup> string"

record ConfigMapList =
  Items :: "ConfigMap list"

datatype kind = ClusterRole | ClusterRoleBinding | ServiceAccount | ConfigMapKind | Service
  | DeploymentKind

text \<open>
  Functions of the package that are called here but defined in other files.  Each call
  is one opaque interaction: it is recorded, and its error result is chosen by the
  environment.  They are assumed to return.
\<close>

datatype helper =
    SetupAtomixController | SetupPartitions | CreateOnosSecret | SetupOnosConfig
  | SetupGUI | SetupOnosCli | SetupIngress
  | SetupSimulator string | SetupNetwork string int
  | TeardownSimulator string | TeardownNetwork string

text \<open>
  Everything the controller does to the outside world, in the order it does it: calls of
  the status writer, of the platform clients (namespace first), of the file system and of
  the absent helpers.  \<open>ExecuteCLI cmd\<close> is \<^verbatim>\<open>c.executeCLI(cmd)\<close>, \<open>Execute pod cmd\<close> is
  \<^verbatim>\<open>c.execute(pod, cmd)\<close>.
\<close>

datatype event =
    StatusStart string | StatusSucceed | StatusFail error
  | Create kind string string
  | ReadFile "string list"
  | GetPod string string
  | ListPods string string
  | ListConfigMaps string string
  | GetDeployment string string
  | Execute string "string list"
  | ExecuteCLI string
  | Helper helper
  | StartTests string "string list" int
  | StreamLogs string
  | ReadLog string
  | CloseLog string
  | GetStatus string

text \<open>
  The environment answers each call from the history of calls so far, so that its
  answers may change over time (a deployment becomes ready, a stream ends).  A theorem
  for every \<open>gateway\<close> holds for every behaviour of the platform.
  \<open>listConfigMaps_resp\<close> gives the Go pair of a possibly nil list pointer and an error.
\<close>

record gateway =
  create_resp :: "event list \<Rightarrow> kind \<Rightarrow> string \<Rightarrow> string \<Rightarrow> error option"
  readFile_resp :: "event list \<Rightarrow> string list \<Rightarrow> error + string"
  getPod_resp :: "event list \<Rightarrow> string \<Rightarrow> string \<Rightarrow> error + Pod"
  listPods_resp :: "event list \<Rightarrow> string \<Rightarrow> string \<Rightarrow> error + Pod list"
  listConfigMaps_resp :: "event list \<Rightarrow> string \<Rightarrow> string \<Rightarrow> ConfigMapList option \<times> error option"
  getDeployment_resp :: "event list \<Rightarrow> string \<Rightarrow> string \<Rightarrow> error + Deployment"
  execute_resp :: "event list \<Rightarrow> string \<Rightarrow> string list \<Rightarrow> error option"
  executeCLI_resp :: "event list \<Rightarrow> string \<Rightarrow> error option"
  helper_resp :: "event list \<Rightarrow> helper \<Rightarrow> error option"
  startTests_resp :: "event list \<Rightarrow> string \<Rightarrow> string list \<Rightarrow> int \<Rightarrow> error + Pod"
  streamLogs_resp :: "event list \<Rightarrow> string \<Rightarrow> error option"
  readLog_resp :: "event list \<Rightarrow> string \<Rightarrow> string \<times> error option"
  getStatus_resp :: "event list \<Rightarrow> string \<Rightarrow> error + (string \<times> int)"

text \<open>
  Modelled from the spec: the status writer \<^verbatim>\<open>console.StatusWriter\<close>, whose source is in
  package \<^verbatim>\<open>console\<close>, outside the package verified here.  It tracks a named multi-step
  operation: the label of the last started step, whether the status stands for a failure,
  and the errors recorded so far with their steps.  The writer is itself the status object
  (\<^verbatim>\<open>console.ErrorStatus\<close>) that the controller returns.
\<close>

record StatusWriter =
  step :: string
  failed :: bool
  errors :: "(string \<times> error) list"

type_synonym ErrorStatus = StatusWriter

text \<open>Modelled from the spec: \<^verbatim>\<open>Failed()\<close>, which a status object exposes.\<close>

definition Failed :: "ErrorStatus \<Rightarrow> bool" where
  "Failed st = failed st"

text \<open>Modelled from the spec: a fresh status writer, with no step started and no error.\<close>

definition NewStatusWriter :: StatusWriter where
  "NewStatusWriter = \<lparr>step = [], failed = False, errors = []\<rparr>"

text \<open>
  The mutable state: the history of calls to the outside world, what was printed to the
  standard output by \<^verbatim>\<open>RunTests\<close>, and the status writer of the controller.
\<close>

record state =
  calls :: "event list"
  stdout :: string
  status :: StatusWriter

definition emit :: "event \<Rightarrow> state \<Rightarrow> state" where
  "emit ev s = s\<lparr>calls := calls s @ [ev]\<rparr>"

text \<open>
  Modelled from the spec: \<^verbatim>\<open>Start(label)\<close> of the status writer begins a step and emits it
  for observation.
\<close>

definition Start :: "string \<Rightarrow> state \<Rightarrow> state" where
  "Start label s = emit (StatusStart label) (s\<lparr>status := (status s)\<lparr>step := label\<rparr>\<rparr>)"

text \<open>
  Modelled from the spec: \<^verbatim>\<open>Succeed()\<close> of the status writer marks the last started step
  successful and returns a status object representing overall success.
\<close>

definition Succeed :: "state \<Rightarrow> ErrorStatus \<times> state" where
  "Succeed s =
     (let w = (status s)\<lparr>failed := False\<rparr> in (w, emit StatusSucceed (s\<lparr>status := w\<rparr>)))"

text \<open>
  Modelled from the spec: \<^verbatim>\<open>Fail(err)\<close> of the status writer marks the step failed, records
  the error, and returns a status object representing overall failure.
\<close>

definition Fail :: "error \<Rightarrow> state \<Rightarrow> ErrorStatus \<times> state" where
  "Fail err s =
     (let w = (status s)\<lparr>failed := True, errors := errors (status s) @ [(step (status s), err)]\<rparr>
      in (w, emit (StatusFail err) (s\<lparr>status := w\<rparr>)))"

text \<open>The calls through the gateway: ask the environment, record the call.\<close>

definition createObject :: "gateway \<Rightarrow> kind \<Rightarrow> string \<Rightarrow> string \<Rightarrow> state \<Rightarrow> error option \<times> state" where
  "createObject g k ns n s = (create_resp g (calls s) k ns n, emit (Create k ns n) s)"

definition readFile :: "gateway \<Rightarrow> string list \<Rightarrow> state \<Rightarrow> (error + string) \<times> state" where
  "readFile g path s = (readFile_resp g (calls s) path, emit (ReadFile path) s)"

definition getPod :: "gateway \<Rightarrow> string \<Rightarrow> string \<Rightarrow> state \<Rightarrow> (error + Pod) \<times> state" where
  "getPod g ns n s = (getPod_resp g (calls s) ns n, emit (GetPod ns n) s)"

definition listPods :: "gateway \<Rightarrow> string \<Rightarrow> string \<Rightarrow> state \<Rightarrow> (error + Pod list) \<times> state" where
  "listPods g ns sel s = (listPods_resp g (calls s) ns sel, emit (ListPods ns sel) s)"

definition listConfigMaps ::
  "gateway \<Rightarrow> string \<Rightarrow> string \<Rightarrow> state \<Rightarrow> (ConfigMapList option \<times> error option) \<times> state" where
  "listConfigMaps g ns sel s = (listConfigMaps_resp g (calls s) ns sel, emit (ListConfigMaps ns sel) s)"

definition getDeployment :: "gateway \<Rightarrow> string \<Rightarrow> string \<Rightarrow> state \<Rightarrow> (error + Deployment) \<times> state" where
  "getDeployment g ns n s = (getDeployment_resp g (calls s) ns n, emit (GetDeployment ns n) s)"

definition execute :: "gateway \<Rightarrow> Pod \<Rightarrow> string list \<Rightarrow> state \<Rightarrow> error option \<times> state" where
  "execute g pod cmd s = (execute_resp g (calls s) (Name pod) cmd, emit (Execute (Name pod) cmd) s)"

definition executeCLI :: "gateway \<Rightarrow> string \<Rightarrow> state \<Rightarrow> error option \<times> state" where
  "executeCLI g cmd s = (executeCLI_resp g (calls s) cmd, emit (ExecuteCLI cmd) s)"

definition callHelper :: "gateway \<Rightarrow> helper \<Rightarrow> state \<Rightarrow> error option \<times> state" where
  "callHelper g h s = (helper_resp g (calls s) h, emit (Helper h) s)"

text \<open>
  \<open>andThen f k\<close> is the Go idiom \<^verbatim>\<open>if err := f(); err != nil { return err }\<close> followed
  by \<open>k\<close>.
\<close>

definition andThen ::
  "(state \<Rightarrow> error option \<times> state) \<Rightarrow> (state \<Rightarrow> error option \<times> state) \<Rightarrow> state \<Rightarrow> error option \<times> state" where
  "andThen f k s = (case f s of (Some err, s') \<Rightarrow> (Some err, s') | (None, s') \<Rightarrow> k s')"

section \<open>Role based access control\<close>

text \<open>
  The three creations of \<^verbatim>\<open>setupRBAC\<close>.  Only \<^verbatim>\<open>createClusterRole\<close> tests the error
  with \<^verbatim>\<open>IsAlreadyExists\<close>; the other two return the error of the create call as it is.
\<close>

definition createClusterRole :: "ClusterController \<Rightarrow> gateway \<Rightarrow> state \<Rightarrow> error option \<times> state" where
  "createClusterRole c g s =
     (case createObject g ClusterRole (clusterID c) (clusterID c) s of
        (Some err, s') \<Rightarrow> (if \<not> IsAlreadyExists err then (Some err, s') else (None, s'))
      | (None, s') \<Rightarrow> (None, s'))"

definition createClusterRoleBinding :: "ClusterController \<Rightarrow> gateway \<Rightarrow> state \<Rightarrow> error option \<times> state" where
  "createClusterRoleBinding c g s = createObject g ClusterRoleBinding (clusterID c) (clusterID c) s"

definition createServiceAccount :: "ClusterController \<Rightarrow> gateway \<Rightarrow> state \<Rightarrow> error option \<times> state" where
  "createServiceAccount c g s = createObject g ServiceAccount (clusterID c) (clusterID c) s"

definition setupRBAC :: "ClusterController \<Rightarrow> gateway \<Rightarrow> state \<Rightarrow> error option \<times> state" where
  "setupRBAC c g =
     andThen (createClusterRole c g)
       (andThen (createClusterRoleBinding c g)
         (andThen (createServiceAccount c g) (\<lambda>s. (None, s))))"

section \<open>Bootstrapping onos-topo\<close>

text \<open>
  Modelled from the spec: the image tag constant \<^verbatim>\<open>Debug\<close>, declared in another file of
  the package; the spec calls it the "debug" sentinel.
\<close>

definition Debug :: string where
  "Debug = ''debug''"

text \<open>The creations of \<^verbatim>\<open>onos-topo.go\<close>: each returns the error of its create call as it is.\<close>

definition createOnosTopoConfigMap :: "ClusterController \<Rightarrow> gateway \<Rightarrow> state \<Rightarrow> error option \<times> state" where
  "createOnosTopoConfigMap c g s = createObject g ConfigMapKind (clusterID c) ''onos-topo'' s"

definition createOnosTopoService :: "ClusterController \<Rightarrow> gateway \<Rightarrow> state \<Rightarrow> error option \<times> state" where
  "createOnosTopoService c g s = createObject g Service (clusterID c) ''onos-topo'' s"

definition createOnosTopoDeployment :: "ClusterController \<Rightarrow> gateway \<Rightarrow> state \<Rightarrow> error option \<times> state" where
  "createOnosTopoDeployment c g s = createObject g DeploymentKind (clusterID c) ''onos-topo'' s"

definition createOnosTopoProxyConfigMap :: "ClusterController \<Rightarrow> gateway \<Rightarrow> state \<Rightarrow> error option \<times> state" where
  "createOnosTopoProxyConfigMap c g s =
     (case readFile g [configsPath c, ''envoy'', ''envoy-topo.yaml''] s of
        (Inl err, s') \<Rightarrow> (Some err, s')
      | (Inr data, s') \<Rightarrow> createObject g ConfigMapKind (clusterID c) ''onos-topo-envoy'' s')"

definition createOnosTopoProxyDeployment :: "ClusterController \<Rightarrow> gateway \<Rightarrow> state \<Rightarrow> error option \<times> state" where
  "createOnosTopoProxyDeployment c g s = createObject g DeploymentKind (clusterID c) ''onos-topo-envoy'' s"

definition createOnosTopoProxyService :: "ClusterController \<Rightarrow> gateway \<Rightarrow> state \<Rightarrow> error option \<times> state" where
  "createOnosTopoProxyService c g s = createObject g Service (clusterID c) ''onos-topo-envoy'' s"

text \<open>The remote command that attaches the debugger and lets the process continue.\<close>

definition dlvCommand :: "string list" where
  "dlvCommand = [''/bin/bash'', ''-c'',
     ''dlv --init <(echo '' @ [CHR 0x22] @ ''exit -c'' @ [CHR 0x22] @ '') connect 127.0.0.1:40000'']"

text \<open>
  The inner loop of \<^verbatim>\<open>awaitOnosTopoDeploymentReady\<close> over the listed pods.  \<open>unblocked\<close> is
  the Go map of pod names; a pod is visited when its name is not a key of it and its first
  container status is running.  The tag compared with \<open>Debug\<close> is \<^verbatim>\<open>ImageTags["config"]\<close>,
  as the source has it.
\<close>

fun unblockPods ::
  "ClusterController \<Rightarrow> gateway \<Rightarrow> Pod list \<Rightarrow> (string \<rightharpoonup> bool) \<Rightarrow> state
     \<Rightarrow> (error + (string \<rightharpoonup> bool)) \<times> state" where
  "unblockPods c g [] unblocked s = (Inr unblocked, s)"
| "unblockPods c g (pod # pods) unblocked s =
     (if unblocked (Name pod) = None
         \<and> (case ContainerStatuses pod of [] \<Rightarrow> False | st # _ \<Rightarrow> Running st)
      then
        (if tagOf (ImageTags (config c)) ''config'' = Debug
         then (case execute g pod dlvCommand s of
                 (Some err, s') \<Rightarrow> (Inl err, s')
               | (None, s') \<Rightarrow> unblockPods c g pods (unblocked(Name pod \<mapsto> True)) s')
         else unblockPods c g pods (unblocked(Name pod \<mapsto> True)) s)
      else unblockPods c g pods unblocked s)"

text \<open>
  The polling loops have no bound in the source, so they are partial: \<open>None\<close> is a wait
  that never returns.  \<^verbatim>\<open>time.Sleep\<close> between two polls has no effect on the state; the
  environment sees time pass as the history of calls grows.
\<close>

partial_function (option) awaitOnosTopoLoop ::
  "ClusterController \<Rightarrow> gateway \<Rightarrow> (string \<rightharpoonup> bool) \<Rightarrow> state \<Rightarrow> (error option \<times> state) option" where
  "awaitOnosTopoLoop c g unblocked s =
     (case listPods g (clusterID c) ''app=onos,type=topo'' s of
        (Inl err, s1) \<Rightarrow> Some (Some err, s1)
      | (Inr pods, s1) \<Rightarrow>
          (case unblockPods c g pods unblocked s1 of
             (Inl err, s2) \<Rightarrow> Some (Some err, s2)
           | (Inr unblocked', s2) \<Rightarrow>
               (case getDeployment g (clusterID c) ''onos-topo'' s2 of
                  (Inl err, s3) \<Rightarrow> Some (Some err, s3)
                | (Inr dep, s3) \<Rightarrow>
                    if ReadyReplicas dep = TopoNodes (config c) then Some (None, s3)
                    else awaitOnosTopoLoop c g unblocked' s3)))"

declare awaitOnosTopoLoop.simps [code]

definition awaitOnosTopoDeploymentReady ::
  "ClusterController \<Rightarrow> gateway \<Rightarrow> state \<Rightarrow> (error option \<times> state) option" where
  "awaitOnosTopoDeploymentReady c g s = awaitOnosTopoLoop c g Map.empty s"

partial_function (option) awaitOnosTopoProxyDeploymentReady ::
  "ClusterController \<Rightarrow> gateway \<Rightarrow> state \<Rightarrow> (error option \<times> state) option" where
  "awaitOnosTopoProxyDeploymentReady c g s =
     (case getDeployment g (clusterID c) ''onos-topo-envoy'' s of
        (Inl err, s1) \<Rightarrow> Some (Some err, s1)
      | (Inr dep, s1) \<Rightarrow>
          if ReadyReplicas dep = 1 then Some (None, s1)
          else awaitOnosTopoProxyDeploymentReady c g s1)"

declare awaitOnosTopoProxyDeploymentReady.simps [code]

text \<open>The same sequencing idiom for functions that may not return.\<close>

definition total :: "(state \<Rightarrow> error option \<times> state) \<Rightarrow> state \<Rightarrow> (error option \<times> state) option" where
  "total f s = Some (f s)"

definition andThenP ::
  "(state \<Rightarrow> (error option \<times> state) option) \<Rightarrow> (state \<Rightarrow> (error option \<times> state) option)
     \<Rightarrow> state \<Rightarrow> (error option \<times> state) option" where
  "andThenP f k s =
     (case f s of None \<Rightarrow> None | Some (Some err, s') \<Rightarrow> Some (Some err, s') | Some (None, s') \<Rightarrow> k s')"

definition setupOnosTopo :: "ClusterController \<Rightarrow> gateway \<Rightarrow> state \<Rightarrow> (error option \<times> state) option" where
  "setupOnosTopo c g =
     andThenP (total (createOnosTopoConfigMap c g))
       (andThenP (total (createOnosTopoService c g))
         (andThenP (total (createOnosTopoDeployment c g))
           (andThenP (total (createOnosTopoProxyConfigMap c g))
             (andThenP (total (createOnosTopoProxyDeployment c g))
               (andThenP (total (createOnosTopoProxyService c g))
                 (andThenP (awaitOnosTopoDeploymentReady c g)
                   (andThenP (awaitOnosTopoProxyDeploymentReady c g)
                     (\<lambda>s. Some (None, s)))))))))"

section \<open>Setup\<close>




section \<open>Adding and removing devices in the topology\<close>

text \<open>The command lines built with \<^verbatim>\<open>fmt.Sprintf\<close> in \<^verbatim>\<open>addDevice\<close> and \<^verbatim>\<open>removeDevice\<close>.\<close>

definition addDeviceCommand :: "string \<Rightarrow> string \<Rightarrow> int \<Rightarrow> string" where
  "addDeviceCommand deviceType name port =
     ''onos topo add device '' @ name @ '' --type '' @ deviceType @ '' --address ''
       @ name @ '':'' @ Itoa port @ '' --version 1.0.0 --plain --timeout 15s''"

definition removeDeviceCommand :: "string \<Rightarrow> string" where
  "removeDeviceCommand name = ''onos topo remove device '' @ name"

definition addDevice :: "gateway \<Rightarrow> string \<Rightarrow> string \<Rightarrow> int \<Rightarrow> state \<Rightarrow> error option \<times> state" where
  "addDevice g deviceType name port s = executeCLI g (addDeviceCommand deviceType name port) s"

definition removeDevice :: "gateway \<Rightarrow> string \<Rightarrow> state \<Rightarrow> error option \<times> state" where
  "removeDevice g name s = executeCLI g (removeDeviceCommand name) s"

definition addSimulatorToTopo :: "gateway \<Rightarrow> string \<Rightarrow> state \<Rightarrow> error option \<times> state" where
  "addSimulatorToTopo g name s = addDevice g ''Devicesim'' name 11161 s"

definition removeSimulatorFromConfig :: "gateway \<Rightarrow> string \<Rightarrow> state \<Rightarrow> error option \<times> state" where
  "removeSimulatorFromConfig g name s = removeDevice g name s"

record NetworkConfig =
  NumDevices :: int

text \<open>
  The loop of \<^verbatim>\<open>addNetworkToTopo\<close> from index \<open>i\<close> with the current \<open>port\<close>:
  \<^verbatim>\<open>for i := 0; i < config.NumDevices; i++\<close>, returning at the first error.
\<close>

function addNetworkLoop :: "gateway \<Rightarrow> string \<Rightarrow> int \<Rightarrow> int \<Rightarrow> int \<Rightarrow> state \<Rightarrow> error option \<times> state" where
  "addNetworkLoop g name n i port s =
     (if i < n then
        (case addDevice g ''Stratum'' (name @ ''-s'' @ Itoa i) port s of
           (Some err, s') \<Rightarrow> (Some err, s')
         | (None, s') \<Rightarrow> addNetworkLoop g name n (i + 1) (port + 1) s')
      else (None, s))"
  by pat_completeness auto
termination
  by (relation "measure (\<lambda>(g, name, n, i, port, s). nat (n - i))") auto

declare addNetworkLoop.simps [simp del]

definition addNetworkToTopo :: "gateway \<Rightarrow> string \<Rightarrow> NetworkConfig \<Rightarrow> state \<Rightarrow> error option \<times> state" where
  "addNetworkToTopo g name cfg s = addNetworkLoop g name (NumDevices cfg) 0 50001 s"

text \<open>
  The stored network configuration is parsed by the YAML library into a
  \<^verbatim>\<open>map[string]interface{}\<close>; \<open>yaml_value\<close> are the dynamic types a value can have.  The
  parser is a parameter of the model: a function from the bytes to an error or the map.
\<close>

datatype yaml_value = YInt int | YString string | YBool bool | YNull | YOther

type_synonym yaml_parser = "string \<Rightarrow> error + (string \<rightharpoonup> yaml_value)"

function removeNetworkLoop :: "gateway \<Rightarrow> string \<Rightarrow> int \<Rightarrow> int \<Rightarrow> state \<Rightarrow> error option \<times> state" where
  "removeNetworkLoop g name numDevices i s =
     (if i < numDevices then
        (case removeDevice g (name @ ''-s'' @ Itoa i) s of
           (Some err, s') \<Rightarrow> (Some err, s')
         | (None, s') \<Rightarrow> removeNetworkLoop g name numDevices (i + 1) s')
      else (None, s))"
  by pat_completeness auto
termination
  by (relation "measure (\<lambda>(g, name, n, i, s). nat (n - i))") auto

declare removeNetworkLoop.simps [simp del]

text \<open>
  \<^verbatim>\<open>removeNetworkFromConfig\<close>.  \<^verbatim>\<open>configMap.Items[0]\<close> panics on a nil list pointer and on
  an empty list; a missing key of \<^verbatim>\<open>BinaryData\<close> reads as no bytes;
  \<^verbatim>\<open>m["numdevices"].(int)\<close> panics unless the key is present with an \<^verbatim>\<open>int\<close>.
\<close>

definition removeNetworkFromConfig ::
  "yaml_parser \<Rightarrow> gateway \<Rightarrow> string \<Rightarrow> ConfigMapList option \<Rightarrow> state \<Rightarrow> (panic + error option) \<times> state" where
  "removeNetworkFromConfig yaml g name configMap s =
     (case configMap of
        None \<Rightarrow> (Inl NilDereference, s)
      | Some l \<Rightarrow>
          (case Items l of
             [] \<Rightarrow> (Inl IndexOutOfRange, s)
           | cm # _ \<Rightarrow>
               (let dataMap = (case BinaryData cm ''config'' of None \<Rightarrow> [] | Some d \<Rightarrow> d) in
                case yaml dataMap of
                  Inl err \<Rightarrow> (Inr (Some err), s)
                | Inr m \<Rightarrow>
                    (case m ''numdevices'' of
                       Some (YInt numDevices) \<Rightarrow>
                         (case removeNetworkLoop g name numDevices 0 s of (r, s') \<Rightarrow> (Inr r, s'))
                     | _ \<Rightarrow> (Inl TypeAssertion, s)))))"

section \<open>Resource lifecycle operations\<close>

text \<open>
  The simulator configuration is handed to \<^verbatim>\<open>setupSimulator\<close> unread, so its type is left
  open.
\<close>

definition AddSimulator :: "gateway \<Rightarrow> string \<Rightarrow> 'cfg \<Rightarrow> state \<Rightarrow> ErrorStatus \<times> state" where
  "AddSimulator g name cfg s =
     (case callHelper g (SetupSimulator name) (Start ''Setting up simulator'' s) of
        (Some err, s1) \<Rightarrow> Fail err s1
      | (None, s1) \<Rightarrow>
          (case addSimulatorToTopo g name (Start ''Adding simulator to topo'' s1) of
             (Some err, s2) \<Rightarrow> Fail err s2
           | (None, s2) \<Rightarrow> Succeed s2))"

definition AddNetwork :: "gateway \<Rightarrow> string \<Rightarrow> NetworkConfig \<Rightarrow> state \<Rightarrow> ErrorStatus \<times> state" where
  "AddNetwork g name cfg s =
     (case callHelper g (SetupNetwork name (NumDevices cfg)) (Start ''Setting up network'' s) of
        (Some err, s1) \<Rightarrow> Fail err s1
      | (None, s1) \<Rightarrow>
          (case addNetworkToTopo g name cfg (Start ''Adding network to topo'' s1) of
             (Some err, s2) \<Rightarrow> Fail err s2
           | (None, s2) \<Rightarrow> Succeed s2))"

definition RemoveSimulator :: "gateway \<Rightarrow> string \<Rightarrow> state \<Rightarrow> ErrorStatus \<times> state" where
  "RemoveSimulator g name s =
     (let s2 = (case callHelper g (TeardownSimulator name) (Start ''Tearing down simulator'' s) of
                  (Some err, s1) \<Rightarrow> snd (Fail err s1)
                | (None, s1) \<Rightarrow> s1)
      in case removeSimulatorFromConfig g name (Start ''Reconfiguring topology'' s2) of
           (Some err, s3) \<Rightarrow> Fail err s3
         | (None, s3) \<Rightarrow> Succeed s3)"

text \<open>
  \<^verbatim>\<open>RemoveNetwork\<close> lists the config maps first and drops the error of that query; a panic
  of the reconciliation step ends the operation without a status.
\<close>

definition RemoveNetwork ::
  "yaml_parser \<Rightarrow> ClusterController \<Rightarrow> gateway \<Rightarrow> string \<Rightarrow> state \<Rightarrow> (panic + ErrorStatus) \<times> state" where
  "RemoveNetwork yaml c g name s =
     (case listConfigMaps g (clusterID c) (''network='' @ name) (Start ''Tearing down network'' s) of
        ((configMaps, _), s1) \<Rightarrow>
          (let s3 = (case callHelper g (TeardownNetwork name) s1 of
                       (Some err, s2) \<Rightarrow> snd (Fail err s2)
                     | (None, s2) \<Rightarrow> s2)
           in case removeNetworkFromConfig yaml g name configMaps (Start ''Reconfiguring topology'' s3) of
                (Inl p, s4) \<Rightarrow> (Inl p, s4)
              | (Inr (Some err), s4) \<Rightarrow> (case Fail err s4 of (st, s5) \<Rightarrow> (Inr st, s5))
              | (Inr None, s4) \<Rightarrow> (case Succeed s4 of (st, s5) \<Rightarrow> (Inr st, s5))))"

section \<open>Running tests\<close>

definition startTests ::
  "gateway \<Rightarrow> string \<Rightarrow> string list \<Rightarrow> int \<Rightarrow> state \<Rightarrow> (error + Pod) \<times> state" where
  "startTests g testID tests timeout s =
     (startTests_resp g (calls s) testID tests timeout, emit (StartTests testID tests timeout) s)"

definition streamLogs :: "gateway \<Rightarrow> Pod \<Rightarrow> state \<Rightarrow> error option \<times> state" where
  "streamLogs g pod s = (streamLogs_resp g (calls s) (Name pod), emit (StreamLogs (Name pod)) s)"

definition readLog :: "gateway \<Rightarrow> Pod \<Rightarrow> state \<Rightarrow> (string \<times> error option) \<times> state" where
  "readLog g pod s = (readLog_resp g (calls s) (Name pod), emit (ReadLog (Name pod)) s)"

definition closeLog :: "Pod \<Rightarrow> state \<Rightarrow> state" where
  "closeLog pod s = emit (CloseLog (Name pod)) s"

definition getStatus :: "gateway \<Rightarrow> Pod \<Rightarrow> state \<Rightarrow> (error + (string \<times> int)) \<times> state" where
  "getStatus g pod s = (getStatus_resp g (calls s) (Name pod), emit (GetStatus (Name pod)) s)"

text \<open>
  The copy loop of \<^verbatim>\<open>RunTests\<close>: read, stop at \<^verbatim>\<open>io.EOF\<close>, return at any other error,
  print what was read otherwise.  A stream that never ends keeps the loop running.
\<close>

partial_function (option) readLoop :: "gateway \<Rightarrow> Pod \<Rightarrow> state \<Rightarrow> (error option \<times> state) option" where
  "readLoop g pod s =
     (case readLog g pod s of
        ((bytes, Some err), s1) \<Rightarrow> (if err = EOF then Some (None, s1) else Some (Some err, s1))
      | ((bytes, None), s1) \<Rightarrow> readLoop g pod (s1\<lparr>stdout := stdout s1 @ bytes\<rparr>))"

declare readLoop.simps [code]

text \<open>
  \<^verbatim>\<open>RunTests\<close> returns the message, the exit code and \<^verbatim>\<open>c.status\<close>, the status writer as
  it stands.  Ten minutes are \<open>600000000000\<close> nanoseconds.  Once the stream is open, the
  deferred \<^verbatim>\<open>reader.Close()\<close> runs on every return.
\<close>

definition RunTests ::
  "gateway \<Rightarrow> string \<Rightarrow> string list \<Rightarrow> int \<Rightarrow> state \<Rightarrow> ((string \<times> int \<times> ErrorStatus) \<times> state) option" where
  "RunTests g testID tests timeout s =
     (let timeout = (if timeout = 0 then 10 * 60000000000 else timeout) in
      case startTests g testID tests timeout (Start (''Starting test job: '' @ testID) s) of
        (Inl err, s1) \<Rightarrow> (case Fail err s1 of (st, s2) \<Rightarrow> Some (([], 0, st), s2))
      | (Inr pod, s1) \<Rightarrow>
          (case streamLogs g pod (snd (Succeed s1)) of
             (Some err, s2) \<Rightarrow> Some (([], 0, status s2), s2)
           | (None, s2) \<Rightarrow>
               (case readLoop g pod s2 of
                  None \<Rightarrow> None
                | Some (Some err, s3) \<Rightarrow> Some (([], 0, status s3), closeLog pod s3)
                | Some (None, s3) \<Rightarrow>
                    (case getStatus g pod s3 of
                       (Inl err, s4) \<Rightarrow>
                         Some ((''failed to retrieve exit code'', 1, status s4), closeLog pod s4)
                     | (Inr (message, code), s4) \<Rightarrow>
                         Some ((message, code, status s4), closeLog pod s4)))))"

section \<open>Looking up resources\<close>

text \<open>
  The loop \<^verbatim>\<open>for i, pod := range pods.Items { resources[i] = pod.Name }\<close> over a slice made
  with the length of the list.
\<close>

fun fillNames :: "Pod list \<Rightarrow> nat \<Rightarrow> string list \<Rightarrow> string list" where
  "fillNames [] i resources = resources"
| "fillNames (pod # pods) i resources = fillNames pods (Suc i) (resources[i := Name pod])"

definition GetResources ::
  "ClusterController \<Rightarrow> gateway \<Rightarrow> string \<Rightarrow> state \<Rightarrow> (error + string list) \<times> state" where
  "GetResources c g name s =
     (case getPod g (clusterID c) name s of
        (Inr pod, s1) \<Rightarrow> (Inr [Name pod], s1)
      | (Inl err, s1) \<Rightarrow>
          if \<not> IsNotFound err then (Inl err, s1)
          else
            (case listPods g (clusterID c) (''resource='' @ name) s1 of
               (Inl err, s2) \<Rightarrow> (Inl err, s2)
             | (Inr pods, s2) \<Rightarrow>
                 if length pods = 0 then (Inl (Err (''unknown test resource '' @ name)), s2)
                 else (Inr (fillNames pods 0 (replicate (length pods) [])), s2)))"

section \<open>Sequences of commands and example environments\<close>

text \<open>
  Running a list of commands through \<^verbatim>\<open>executeCLI\<close>, returning at the first error: what
  the two device loops do with the commands they build.
\<close>

fun cliSeq :: "gateway \<Rightarrow> string list \<Rightarrow> state \<Rightarrow> error option \<times> state" where
  "cliSeq g [] s = (None, s)"
| "cliSeq g (cmd # cmds) s =
     (case executeCLI g cmd s of
        (Some err, s') \<Rightarrow> (Some err, s')
      | (None, s') \<Rightarrow> cliSeq g cmds s')"

text \<open>
  Environments for the examples.  \<open>quietGateway\<close> lets every call succeed at once: nothing
  exists yet, nothing is found by name, deployments are ready, streams are at their end.
\<close>

definition quietGateway :: gateway where
  "quietGateway = \<lparr>
     create_resp = (\<lambda>tr k ns n. None),
     readFile_resp = (\<lambda>tr path. Inr []),
     getPod_resp = (\<lambda>tr ns n. Inl NotFound),
     listPods_resp = (\<lambda>tr ns sel. Inr []),
     listConfigMaps_resp = (\<lambda>tr ns sel. (Some \<lparr>Items = []\<rparr>, None)),
     getDeployment_resp = (\<lambda>tr ns n. Inr \<lparr>ReadyReplicas = 1\<rparr>),
     execute_resp = (\<lambda>tr pod cmd. None),
     executeCLI_resp = (\<lambda>tr cmd. None),
     helper_resp = (\<lambda>tr h. None),
     startTests_resp = (\<lambda>tr testID tests timeout. Inr \<lparr>Name = testID, ContainerStatuses = []\<rparr>),
     streamLogs_resp = (\<lambda>tr pod. None),
     readLog_resp = (\<lambda>tr pod. ([], Some EOF)),
     getStatus_resp = (\<lambda>tr pod. Inr (''PASS'', 0))\<rparr>"

definition initState :: state where
  "initState = \<lparr>calls = [], stdout = [], status = NewStatusWriter\<rparr>"

definition testCluster :: ClusterController where
  "testCluster = \<lparr>clusterID = ''c1'',
     config = \<lparr>Registry = [], Preset = ''default'',
       ImageTags = [''topo'' \<mapsto> ''debug'', ''config'' \<mapsto> ''latest''],
       PullPolicy = ''IfNotPresent'', ConfigNodes = 1, TopoNodes = 1, Partitions = 1,
       PartitionSize = 1\<rparr>,
     configsPath = ''configs''\<rparr>"

fun isExecuteCLI :: "event \<Rightarrow> bool" where
  "isExecuteCLI (ExecuteCLI cmd) = True"
| "isExecuteCLI ev = False"

text \<open>The remote command line works \<open>n\<close> times and fails from then on.\<close>

definition cliFailsAfter :: "nat \<Rightarrow> gateway" where
  "cliFailsAfter n = quietGateway\<lparr>executeCLI_resp :=
     (\<lambda>tr cmd. if n \<le> length (filter isExecuteCLI tr)
                then Some (Err ''command terminated with exit code 1'') else None)\<rparr>"

text \<open>
  The answers of the YAML library (\<^verbatim>\<open>gopkg.in/yaml.v1\<close>, unmarshalling into a
  \<^verbatim>\<open>map[string]interface{}\<close>) on the documents of the examples: a plain decimal scalar
  is an \<^verbatim>\<open>int\<close>, a word a \<^verbatim>\<open>string\<close>, and a flow mapping that is opened and never closed
  is the error of the library's parser.  \<open>exampleYaml\<close> is the parser restricted to these
  documents; nothing is said of its answer on any other document, and no example stores
  one.  The environments below store such a document for a network, or let every helper
  of the package that is defined in another file fail.
\<close>

definition yamlDocuments :: "(string \<times> (error + (string \<rightharpoonup> yaml_value))) list" where
  "yamlDocuments =
     [(''numdevices: 2'', Inr [''numdevices'' \<mapsto> YInt 2]),
      (''numdevices: 3'', Inr [''numdevices'' \<mapsto> YInt 3]),
      (''numdevices: two'', Inr [''numdevices'' \<mapsto> YString ''two'']),
      (''devices: 2'', Inr [''devices'' \<mapsto> YInt 2]),
      (''{'', Inl (Err ''YAML error: line 1: did not find expected node content''))]"

definition exampleYaml :: yaml_parser where
  "exampleYaml d = the (map_of yamlDocuments d)"

definition withNetworkConfig :: "string \<Rightarrow> gateway \<Rightarrow> gateway" where
  "withNetworkConfig d g = g\<lparr>listConfigMaps_resp :=
     (\<lambda>tr ns sel. (Some \<lparr>Items = [\<lparr>BinaryData = [''config'' \<mapsto> d]\<rparr>]\<rparr>, None))\<rparr>"

definition helpersFail :: "gateway \<Rightarrow> gateway" where
  "helpersFail g = g\<lparr>helper_resp := (\<lambda>tr h. Some (Err ''helper failed''))\<rparr>"

text \<open>Every creation of an object of kind \<open>k\<close> is answered with "already exists".\<close>

definition alreadyExists :: "kind \<Rightarrow> gateway \<Rightarrow> gateway" where
  "alreadyExists k g = g\<lparr>create_resp := (\<lambda>tr k' ns n. if k' = k then Some AlreadyExists else None)\<rparr>"

text \<open>
  A partition in which the pods \<open>names\<close> exist and the pods \<open>labelled\<close> are the ones the
  selector \<open>sel\<close> finds.
\<close>

definition podNamed :: "string \<Rightarrow> Pod" where
  "podNamed n = \<lparr>Name = n, ContainerStatuses = []\<rparr>"

definition withPods :: "string list \<Rightarrow> string \<Rightarrow> string list \<Rightarrow> gateway \<Rightarrow> gateway" where
  "withPods names sel labelled g = g\<lparr>
     getPod_resp := (\<lambda>tr ns n. if n \<in> set names then Inr (podNamed n) else Inl NotFound),
     listPods_resp := (\<lambda>tr ns sel'. if sel' = sel then Inr (map podNamed labelled) else Inr [])\<rparr>"

text \<open>
  Environments for test runs: the log stream cannot be opened; the stream delivers \<open>n\<close>
  chunks and then the error \<open>err\<close>; the terminal status of the pod cannot be retrieved.
\<close>

fun isReadLog :: "event \<Rightarrow> bool" where
  "isReadLog (ReadLog pod) = True"
| "isReadLog ev = False"

definition streamFails :: "gateway \<Rightarrow> gateway" where
  "streamFails g = g\<lparr>streamLogs_resp := (\<lambda>tr pod. Some (Err ''stream error''))\<rparr>"

definition readsThenError :: "nat \<Rightarrow> error \<Rightarrow> gateway \<Rightarrow> gateway" where
  "readsThenError n err g = g\<lparr>readLog_resp :=
     (\<lambda>tr pod. if length (filter isReadLog tr) < n then (''ok '', None) else ([], Some err))\<rparr>"

definition statusFails :: "gateway \<Rightarrow> gateway" where
  "statusFails g = g\<lparr>getStatus_resp := (\<lambda>tr pod. Inl (Err ''pod status unknown''))\<rparr>"

section \<open>The setup sequence as a list of steps\<close>





text \<open>
  The labels of the steps started in a history of calls, oldest first; a state \<open>s'\<close> is
  within the step of \<open>s\<close> when the status writer is untouched and no step was started
  between them; a body is quiet when it stays within the step it is started in.
\<close>

fun started :: "event list \<Rightarrow> string list" where
  "started [] = []"
| "started (StatusStart label # evs) = label # started evs"
| "started (ev # evs) = started evs"

definition withinStep :: "state \<Rightarrow> state \<Rightarrow> bool" where
  "withinStep s s' = (status s' = status s \<and> started (calls s') = started (calls s))"


text \<open>
  Pods whose first container is running, a partition whose pod list consists of such
  pods, and a cluster whose onos-config tag is the debug one while the onos-topo tag is
  not (\<open>testCluster\<close> has it the other way round).  \<open>attached\<close> gives the pods a remote
  command was executed in, oldest first.
\<close>

definition runningPod :: "string \<Rightarrow> Pod" where
  "runningPod n = \<lparr>Name = n, ContainerStatuses = [\<lparr>Running = True\<rparr>]\<rparr>"

definition withRunningPods :: "string list \<Rightarrow> gateway \<Rightarrow> gateway" where
  "withRunningPods names g = g\<lparr>listPods_resp := (\<lambda>tr ns sel. Inr (map runningPod names))\<rparr>"

definition configDebugCluster :: ClusterController where
  "configDebugCluster = testCluster\<lparr>config := (config testCluster)\<lparr>ImageTags :=
     [''topo'' \<mapsto> ''latest'', ''config'' \<mapsto> ''debug'']\<rparr>\<rparr>"

fun attached :: "event list \<Rightarrow> string list" where
  "attached [] = []"
| "attached (Execute pod cmd # evs) = pod # attached evs"
| "attached (ev # evs) = attached evs"


section \<open>Image names\<close>

text \<open>
  Claim C9.  For every image name and tag, \<open>imageName\<close> is \<open>image:tag\<close> when the registry
  of the cluster configuration is the empty string, and \<open>registry/image:tag\<close> when it is
  not.
\<close>

theorem imageName_registry:
  "imageName c img tag =
     (if Registry (config c) = '''' then img @ '':'' @ tag
      else Registry (config c) @ ''/'' @ img @ '':'' @ tag)"
  by (simp add: imageName_def imagePrefix_def)

section \<open>Calls and status\<close>

lemma calls_emit [simp]: "calls (emit ev s) = calls s @ [ev]"
  by (simp add: emit_def)

lemma status_emit [simp]: "status (emit ev s) = status s"
  by (simp add: emit_def)

lemma calls_Start [simp]: "calls (Start label s) = calls s @ [StatusStart label]"
  by (simp add: Start_def)

lemma calls_Succeed [simp]: "calls (snd (Succeed s)) = calls s @ [StatusSucceed]"
  by (simp add: Succeed_def Let_def)

lemma calls_Fail [simp]: "calls (snd (Fail err s)) = calls s @ [StatusFail err]"
  by (simp add: Fail_def Let_def)

lemma Failed_Fail [simp]: "Failed (fst (Fail err s))"
  by (simp add: Fail_def Failed_def Let_def)

lemma Failed_Succeed [simp]: "\<not> Failed (fst (Succeed s))"
  by (simp add: Succeed_def Failed_def Let_def)

text \<open>The answers of the quiet environment and the fields of the example cluster.\<close>

lemma quietGateway_simps:
  "create_resp quietGateway tr k ns n = None"
  "readFile_resp quietGateway tr path = Inr []"
  "getPod_resp quietGateway tr ns n = Inl NotFound"
  "listPods_resp quietGateway tr ns sel = Inr []"
  "listConfigMaps_resp quietGateway tr ns sel = (Some \<lparr>Items = []\<rparr>, None)"
  "getDeployment_resp quietGateway tr ns n = Inr \<lparr>ReadyReplicas = 1\<rparr>"
  "execute_resp quietGateway tr pod cmd = None"
  "executeCLI_resp quietGateway tr c = None"
  "helper_resp quietGateway tr h = None"
  "startTests_resp quietGateway tr testID tests timeout = Inr \<lparr>Name = testID, ContainerStatuses = []\<rparr>"
  "streamLogs_resp quietGateway tr pod = None"
  "readLog_resp quietGateway tr pod = ([], Some EOF)"
  "getStatus_resp quietGateway tr pod = Inr (''PASS'', 0)"
  by (simp_all add: quietGateway_def)

lemma testCluster_simps:
  "clusterID testCluster = ''c1''"
  "configsPath testCluster = ''configs''"
  "TopoNodes (config testCluster) = 1"
  "ImageTags (config testCluster) = [''topo'' \<mapsto> ''debug'', ''config'' \<mapsto> ''latest'']"
  by (simp_all add: testCluster_def)

lemma exampleYaml_simps:
  "exampleYaml ''numdevices: 2'' = Inr [''numdevices'' \<mapsto> YInt 2]"
  "exampleYaml ''numdevices: 3'' = Inr [''numdevices'' \<mapsto> YInt 3]"
  "exampleYaml ''numdevices: two'' = Inr [''numdevices'' \<mapsto> YString ''two'']"
  "exampleYaml ''devices: 2'' = Inr [''devices'' \<mapsto> YInt 2]"
  "exampleYaml ''{'' = Inl (Err ''YAML error: line 1: did not find expected node content'')"
  by (simp_all add: exampleYaml_def yamlDocuments_def)

lemma upt_small: "[0..<2] = [0, Suc 0]" "[0..<3] = [0, Suc 0, Suc (Suc 0)]"
  by (simp_all add: upt_rec)

lemmas Itoa_eval = Itoa_def digits.simps digit_char_def

section \<open>Errors of object creation\<close>

lemma setupRBAC_eq:
  "setupRBAC c g s =
     (let tr = calls s; n = clusterID c;
          e1 = Create ClusterRole n n; e2 = Create ClusterRoleBinding n n; e3 = Create ServiceAccount n n;
          r1 = create_resp g tr ClusterRole n n;
          r2 = create_resp g (tr @ [e1]) ClusterRoleBinding n n;
          r3 = create_resp g (tr @ [e1, e2]) ServiceAccount n n
      in if r1 \<noteq> None \<and> r1 \<noteq> Some AlreadyExists then (r1, s\<lparr>calls := tr @ [e1]\<rparr>)
         else if r2 \<noteq> None then (r2, s\<lparr>calls := tr @ [e1, e2]\<rparr>)
         else (r3, s\<lparr>calls := tr @ [e1, e2, e3]\<rparr>))"
  by (auto simp: setupRBAC_def andThen_def createClusterRole_def createClusterRoleBinding_def
      createServiceAccount_def createObject_def emit_def IsAlreadyExists_def Let_def split: option.splits)

lemma setupOnosTopo_eq:
  "setupOnosTopo c g s =
     (let tr = calls s; n = clusterID c;
          e1 = Create ConfigMapKind n ''onos-topo'';
          e2 = Create Service n ''onos-topo'';
          e3 = Create DeploymentKind n ''onos-topo'';
          e4 = ReadFile [configsPath c, ''envoy'', ''envoy-topo.yaml''];
          e5 = Create ConfigMapKind n ''onos-topo-envoy'';
          e6 = Create DeploymentKind n ''onos-topo-envoy'';
          e7 = Create Service n ''onos-topo-envoy'';
          r1 = create_resp g tr ConfigMapKind n ''onos-topo'';
          r2 = create_resp g (tr @ [e1]) Service n ''onos-topo'';
          r3 = create_resp g (tr @ [e1, e2]) DeploymentKind n ''onos-topo'';
          r4 = readFile_resp g (tr @ [e1, e2, e3]) [configsPath c, ''envoy'', ''envoy-topo.yaml''];
          r5 = create_resp g (tr @ [e1, e2, e3, e4]) ConfigMapKind n ''onos-topo-envoy'';
          r6 = create_resp g (tr @ [e1, e2, e3, e4, e5]) DeploymentKind n ''onos-topo-envoy'';
          r7 = create_resp g (tr @ [e1, e2, e3, e4, e5, e6]) Service n ''onos-topo-envoy''
      in if r1 \<noteq> None then Some (r1, s\<lparr>calls := tr @ [e1]\<rparr>)
         else if r2 \<noteq> None then Some (r2, s\<lparr>calls := tr @ [e1, e2]\<rparr>)
         else if r3 \<noteq> None then Some (r3, s\<lparr>calls := tr @ [e1, e2, e3]\<rparr>)
         else (case r4 of
            Inl err \<Rightarrow> Some (Some err, s\<lparr>calls := tr @ [e1, e2, e3, e4]\<rparr>)
          | Inr _ \<Rightarrow>
             if r5 \<noteq> None then Some (r5, s\<lparr>calls := tr @ [e1, e2, e3, e4, e5]\<rparr>)
             else if r6 \<noteq> None then Some (r6, s\<lparr>calls := tr @ [e1, e2, e3, e4, e5, e6]\<rparr>)
             else if r7 \<noteq> None then Some (r7, s\<lparr>calls := tr @ [e1, e2, e3, e4, e5, e6, e7]\<rparr>)
             else andThenP (awaitOnosTopoDeploymentReady c g)
                    (andThenP (awaitOnosTopoProxyDeploymentReady c g) (\<lambda>s. Some (None, s)))
                    (s\<lparr>calls := tr @ [e1, e2, e3, e4, e5, e6, e7]\<rparr>)))"
  unfolding setupOnosTopo_def Let_def
  by (auto simp: andThenP_def total_def createOnosTopoConfigMap_def createOnosTopoService_def
      createOnosTopoDeployment_def createOnosTopoProxyConfigMap_def createOnosTopoProxyDeployment_def
      createOnosTopoProxyService_def createObject_def readFile_def emit_def split: option.splits sum.splits)

text \<open>
  Claim C2, as the code has it.  Creating the cluster role swallows an "already exists"
  error and the step goes on; any other error of that creation, and every error of the
  other creations (cluster role binding, service account, config maps, services,
  deployments), "already exists" included, is returned by the create function as it is
  and aborts the calling step (\<open>setupRBAC\<close>, \<open>setupOnosTopo\<close>) with that error before any
  later call.  \<open>r1\<close>, \<open>r2\<close>, ... are the answers of the environment to the calls
  \<open>e1\<close>, \<open>e2\<close>, ... in their order.
\<close>

theorem create_error_handling:
  "setupRBAC c g s =
     (let tr = calls s; n = clusterID c;
          e1 = Create ClusterRole n n; e2 = Create ClusterRoleBinding n n; e3 = Create ServiceAccount n n;
          r1 = create_resp g tr ClusterRole n n;
          r2 = create_resp g (tr @ [e1]) ClusterRoleBinding n n;
          r3 = create_resp g (tr @ [e1, e2]) ServiceAccount n n
      in if r1 \<noteq> None \<and> r1 \<noteq> Some AlreadyExists then (r1, s\<lparr>calls := tr @ [e1]\<rparr>)
         else if r2 \<noteq> None then (r2, s\<lparr>calls := tr @ [e1, e2]\<rparr>)
         else (r3, s\<lparr>calls := tr @ [e1, e2, e3]\<rparr>))
   \<and> setupOnosTopo c g s =
     (let tr = calls s; n = clusterID c;
          e1 = Create ConfigMapKind n ''onos-topo'';
          e2 = Create Service n ''onos-topo'';
          e3 = Create DeploymentKind n ''onos-topo'';
          e4 = ReadFile [configsPath c, ''envoy'', ''envoy-topo.yaml''];
          e5 = Create ConfigMapKind n ''onos-topo-envoy'';
          e6 = Create DeploymentKind n ''onos-topo-envoy'';
          e7 = Create Service n ''onos-topo-envoy'';
          r1 = create_resp g tr ConfigMapKind n ''onos-topo'';
          r2 = create_resp g (tr @ [e1]) Service n ''onos-topo'';
          r3 = create_resp g (tr @ [e1, e2]) DeploymentKind n ''onos-topo'';
          r4 = readFile_resp g (tr @ [e1, e2, e3]) [configsPath c, ''envoy'', ''envoy-topo.yaml''];
          r5 = create_resp g (tr @ [e1, e2, e3, e4]) ConfigMapKind n ''onos-topo-envoy'';
          r6 = create_resp g (tr @ [e1, e2, e3, e4, e5]) DeploymentKind n ''onos-topo-envoy'';
          r7 = create_resp g (tr @ [e1, e2, e3, e4, e5, e6]) Service n ''onos-topo-envoy''
      in if r1 \<noteq> None then Some (r1, s\<lparr>calls := tr @ [e1]\<rparr>)
         else if r2 \<noteq> None then Some (r2, s\<lparr>calls := tr @ [e1, e2]\<rparr>)
         else if r3 \<noteq> None then Some (r3, s\<lparr>calls := tr @ [e1, e2, e3]\<rparr>)
         else (case r4 of
            Inl err \<Rightarrow> Some (Some err, s\<lparr>calls := tr @ [e1, e2, e3, e4]\<rparr>)
          | Inr _ \<Rightarrow>
             if r5 \<noteq> None then Some (r5, s\<lparr>calls := tr @ [e1, e2, e3, e4, e5]\<rparr>)
             else if r6 \<noteq> None then Some (r6, s\<lparr>calls := tr @ [e1, e2, e3, e4, e5, e6]\<rparr>)
             else if r7 \<noteq> None then Some (r7, s\<lparr>calls := tr @ [e1, e2, e3, e4, e5, e6, e7]\<rparr>)
             else andThenP (awaitOnosTopoDeploymentReady c g)
                    (andThenP (awaitOnosTopoProxyDeploymentReady c g) (\<lambda>s. Some (None, s)))
                    (s\<lparr>calls := tr @ [e1, e2, e3, e4, e5, e6, e7]\<rparr>)))"
  using setupRBAC_eq[of c g s] setupOnosTopo_eq[of c g s] by (rule conjI)

theorem create_error_handling_witness:
  "setupRBAC testCluster (alreadyExists ClusterRole quietGateway) initState
     = (None, initState\<lparr>calls := [Create ClusterRole ''c1'' ''c1'', Create ClusterRoleBinding ''c1'' ''c1'',
          Create ServiceAccount ''c1'' ''c1'']\<rparr>)
   \<and> setupRBAC testCluster (alreadyExists ServiceAccount quietGateway) initState
     = (Some AlreadyExists, initState\<lparr>calls := [Create ClusterRole ''c1'' ''c1'',
          Create ClusterRoleBinding ''c1'' ''c1'', Create ServiceAccount ''c1'' ''c1'']\<rparr>)
   \<and> setupOnosTopo testCluster (alreadyExists Service quietGateway) initState
     = Some (Some AlreadyExists, initState\<lparr>calls := [Create ConfigMapKind ''c1'' ''onos-topo'',
          Create Service ''c1'' ''onos-topo'']\<rparr>)"
  using create_error_handling[of testCluster "alreadyExists ClusterRole quietGateway" initState]
    create_error_handling[of testCluster "alreadyExists ServiceAccount quietGateway" initState]
    create_error_handling[of testCluster "alreadyExists Service quietGateway" initState]
  by (simp add: Let_def alreadyExists_def quietGateway_def testCluster_def initState_def)

text \<open>
  The cluster role binding, or the config map of onos-topo, exists already: the error is
  not swallowed, the step returns it and stops.
\<close>

theorem create_AlreadyExists_counterexample:
  "create_resp (alreadyExists ClusterRoleBinding quietGateway) [Create ClusterRole ''c1'' ''c1'']
       ClusterRoleBinding ''c1'' ''c1'' = Some AlreadyExists
   \<and> setupRBAC testCluster (alreadyExists ClusterRoleBinding quietGateway) initState
     = (Some AlreadyExists, initState\<lparr>calls := [Create ClusterRole ''c1'' ''c1'',
          Create ClusterRoleBinding ''c1'' ''c1'']\<rparr>)
   \<and> setupOnosTopo testCluster (alreadyExists ConfigMapKind quietGateway) initState
     = Some (Some AlreadyExists, initState\<lparr>calls := [Create ConfigMapKind ''c1'' ''onos-topo'']\<rparr>)"
  by (simp add: setupRBAC_eq setupOnosTopo_eq Let_def alreadyExists_def quietGateway_def testCluster_def initState_def)

section \<open>The order of the setup steps\<close>







lemma started_append [simp]: "started (xs @ ys) = started xs @ started ys"
  by (induction xs rule: started.induct) simp_all





lemma withinStep_refl [simp]: "withinStep s s"
  by (simp add: withinStep_def)





lemma withinStep_createObject [simp]: "withinStep s (snd (createObject g k ns n s))"
  by (simp add: createObject_def withinStep_def)

lemma withinStep_callHelper [simp]: "withinStep s (snd (callHelper g h s))"
  by (simp add: callHelper_def withinStep_def)


















section \<open>Waiting for onos-topo\<close>

text \<open>
  What holds of the wait loop for every environment: the pods the debugger command is
  executed in during one wait are pairwise distinct and none of them was unblocked before;
  no command is executed unless the tag under the key \<open>config\<close> is the debug one; and the
  loop returns without error only right after a query that showed as many ready replicas
  as \<open>TopoNodes\<close>.
\<close>

lemma attached_append [simp]: "attached (xs @ ys) = attached xs @ attached ys"
  by (induction xs rule: attached.induct) simp_all

lemma unblockPods_attached:
  "unblockPods c g pods unblocked s = (r, s') \<Longrightarrow>
   \<exists>names. attached (calls s') = attached (calls s) @ names \<and> distinct names
      \<and> set names \<inter> dom unblocked = {}
      \<and> (tagOf (ImageTags (config c)) ''config'' \<noteq> Debug \<longrightarrow> names = [])
      \<and> (\<forall>unblocked'. r = Inr unblocked' \<longrightarrow> dom unblocked \<union> set names \<subseteq> dom unblocked')"
proof (induction pods arbitrary: unblocked s)
  case Nil
  then show ?case by auto
next
  case (Cons pod pods)
  show ?case
  proof (cases "unblocked (Name pod) = None
         \<and> (case ContainerStatuses pod of [] \<Rightarrow> False | st # _ \<Rightarrow> Running st)")
    case False
    with Cons.prems have "unblockPods c g pods unblocked s = (r, s')" by auto
    then show ?thesis by (rule Cons.IH)
  next
    case visit: True
    show ?thesis
    proof (cases "tagOf (ImageTags (config c)) ''config'' = Debug")
      case False
      with Cons.prems visit have "unblockPods c g pods (unblocked(Name pod \<mapsto> True)) s = (r, s')" by auto
      from Cons.IH[OF this] obtain names where
        n: "attached (calls s') = attached (calls s) @ names" "distinct names"
          "set names \<inter> dom (unblocked(Name pod \<mapsto> True)) = {}"
          "tagOf (ImageTags (config c)) ''config'' \<noteq> Debug \<longrightarrow> names = []"
          "\<forall>unblocked'. r = Inr unblocked' \<longrightarrow> dom (unblocked(Name pod \<mapsto> True)) \<union> set names \<subseteq> dom unblocked'"
        by blast
      show ?thesis
        by (rule exI[of _ names]) (use n in auto)
    next
      case True
      obtain e s1 where ex: "execute g pod dlvCommand s = (e, s1)" by (cases "execute g pod dlvCommand s")
      then have a1: "attached (calls s1) = attached (calls s) @ [Name pod]"
        by (auto simp: execute_def emit_def)
      show ?thesis
      proof (cases e)
        case (Some err)
        with Cons.prems visit True ex have "s' = s1" "r = Inl err" by auto
        with a1 visit True show ?thesis by (intro exI[of _ "[Name pod]"]) auto
      next
        case None
        with Cons.prems visit True ex
        have "unblockPods c g pods (unblocked(Name pod \<mapsto> True)) s1 = (r, s')" by auto
        from Cons.IH[OF this] obtain names where
          n: "attached (calls s') = attached (calls s1) @ names" "distinct names"
            "set names \<inter> dom (unblocked(Name pod \<mapsto> True)) = {}"
            "\<forall>unblocked'. r = Inr unblocked' \<longrightarrow> dom (unblocked(Name pod \<mapsto> True)) \<union> set names \<subseteq> dom unblocked'"
          by blast
        show ?thesis
          by (rule exI[of _ "Name pod # names"]) (use n a1 visit True in auto)
      qed
    qed
  qed
qed

lemma awaitOnosTopoLoop_attached:
  assumes "awaitOnosTopoLoop c g unblocked s = Some y"
  shows "\<exists>names. attached (calls (snd y)) = attached (calls s) @ names \<and> distinct names
      \<and> set names \<inter> dom unblocked = {}
      \<and> (tagOf (ImageTags (config c)) ''config'' \<noteq> Debug \<longrightarrow> names = [])"
proof (rule awaitOnosTopoLoop.raw_induct[where P="\<lambda>c g unblocked s y.
    \<exists>names. attached (calls (snd y)) = attached (calls s) @ names \<and> distinct names
      \<and> set names \<inter> dom unblocked = {}
      \<and> (tagOf (ImageTags (config c)) ''config'' \<noteq> Debug \<longrightarrow> names = [])", OF _ assms], goal_cases)
  case (1 loop c g unblocked s y)
  obtain lp s1 where l: "listPods g (clusterID c) ''app=onos,type=topo'' s = (lp, s1)"
    by (cases "listPods g (clusterID c) ''app=onos,type=topo'' s")
  then have q1: "attached (calls s1) = attached (calls s)"
    by (auto simp: listPods_def emit_def)
  show ?case
  proof (cases lp)
    case (Inl err)
    with 1(2) l q1 show ?thesis by auto
  next
    case (Inr pods)
    obtain u s2 where ub: "unblockPods c g pods unblocked s1 = (u, s2)"
      by (cases "unblockPods c g pods unblocked s1")
    from unblockPods_attached[OF ub] obtain names1 where
      n1: "attached (calls s2) = attached (calls s1) @ names1" "distinct names1"
        "set names1 \<inter> dom unblocked = {}"
        "tagOf (ImageTags (config c)) ''config'' \<noteq> Debug \<longrightarrow> names1 = []"
        "\<forall>unblocked'. u = Inr unblocked' \<longrightarrow> dom unblocked \<union> set names1 \<subseteq> dom unblocked'"
      by blast
    show ?thesis
    proof (cases u)
      case (Inl err)
      with 1(2) l Inr ub have "snd y = s2" by auto
      with n1 q1 show ?thesis by auto
    next
      case u': (Inr unblocked')
      obtain d s3 where gd: "getDeployment g (clusterID c) ''onos-topo'' s2 = (d, s3)"
        by (cases "getDeployment g (clusterID c) ''onos-topo'' s2")
      then have q3: "attached (calls s3) = attached (calls s2)"
        by (auto simp: getDeployment_def emit_def)
      show ?thesis
      proof (cases d)
        case (Inl err)
        with 1(2) l Inr ub u' gd have "snd y = s3" by auto
        with n1 q1 q3 show ?thesis by auto
      next
        case (Inr dep)
        show ?thesis
        proof (cases "ReadyReplicas dep = TopoNodes (config c)")
          case True
          with 1(2) l \<open>lp = Inr pods\<close> ub u' gd Inr have "snd y = s3" by auto
          with n1 q1 q3 show ?thesis by auto
        next
          case False
          with 1(2) l \<open>lp = Inr pods\<close> ub u' gd Inr have "loop c g unblocked' s3 = Some y" by auto
          from 1(1)[OF this] obtain names2 where
            n2: "attached (calls (snd y)) = attached (calls s3) @ names2" "distinct names2"
              "set names2 \<inter> dom unblocked' = {}"
              "tagOf (ImageTags (config c)) ''config'' \<noteq> Debug \<longrightarrow> names2 = []"
            by blast
          from n1(5) u' have sub: "dom unblocked \<union> set names1 \<subseteq> dom unblocked'" by simp
          have d1: "set names2 \<inter> dom unblocked = {}" using n2(3) sub by blast
          have d2: "set names1 \<inter> set names2 = {}" using n2(3) sub by blast
          have "attached (calls (snd y)) = attached (calls s) @ names1 @ names2"
            using n1(1) n2(1) q1 q3 by simp
          moreover have "distinct (names1 @ names2)" using n1(2) n2(2) d2 by simp
          moreover have "set (names1 @ names2) \<inter> dom unblocked = {}" using n1(3) d1 by auto
          moreover have "tagOf (ImageTags (config c)) ''config'' \<noteq> Debug \<longrightarrow> names1 @ names2 = []"
            using n1(4) n2(4) by simp
          ultimately show ?thesis by blast
        qed
      qed
    qed
  qed
qed

lemma awaitOnosTopoLoop_ready:
  assumes "awaitOnosTopoLoop c g unblocked s = Some y"
  shows "fst y = None \<longrightarrow>
     (\<exists>tr dep. getDeployment_resp g tr (clusterID c) ''onos-topo'' = Inr dep
        \<and> ReadyReplicas dep = TopoNodes (config c)
        \<and> calls (snd y) = tr @ [GetDeployment (clusterID c) ''onos-topo''])"
proof (rule awaitOnosTopoLoop.raw_induct[where P="\<lambda>c g unblocked s y. fst y = None \<longrightarrow>
     (\<exists>tr dep. getDeployment_resp g tr (clusterID c) ''onos-topo'' = Inr dep
        \<and> ReadyReplicas dep = TopoNodes (config c)
        \<and> calls (snd y) = tr @ [GetDeployment (clusterID c) ''onos-topo''])", OF _ assms], goal_cases)
  case (1 loop c g unblocked s y)
  then show ?case
    by (auto simp: getDeployment_def emit_def split: prod.splits sum.splits if_splits)
qed

text \<open>
  Claim C3 says that, while polling, the debugger command is executed in a newly running
  pod exactly when the image tag of the topology service is the debug one.  The loop
  tests the tag of the configuration service instead.  With the tag of onos-topo set to
  debug and that of onos-config to latest, a running pod of a ready deployment gets no
  debugger command; with the tags swapped, it gets one.
\<close>

theorem awaitOnosTopo_checks_config_tag:
  "tagOf (ImageTags (config testCluster)) ''topo'' = Debug
   \<and> awaitOnosTopoDeploymentReady testCluster (withRunningPods [''onos-topo-0''] quietGateway) initState
     = Some (None, initState\<lparr>calls :=
         [ListPods ''c1'' ''app=onos,type=topo'', GetDeployment ''c1'' ''onos-topo'']\<rparr>)
   \<and> tagOf (ImageTags (config configDebugCluster)) ''topo'' = ''latest''
   \<and> awaitOnosTopoDeploymentReady configDebugCluster (withRunningPods [''onos-topo-0''] quietGateway) initState
     = Some (None, initState\<lparr>calls :=
         [ListPods ''c1'' ''app=onos,type=topo'', Execute ''onos-topo-0'' dlvCommand,
          GetDeployment ''c1'' ''onos-topo'']\<rparr>)"
proof -
  have 1: "awaitOnosTopoDeploymentReady testCluster (withRunningPods [''onos-topo-0''] quietGateway) initState
     = Some (None, initState\<lparr>calls :=
         [ListPods ''c1'' ''app=onos,type=topo'', GetDeployment ''c1'' ''onos-topo'']\<rparr>)"
    unfolding awaitOnosTopoDeploymentReady_def
    by (subst awaitOnosTopoLoop.simps)
       (simp add: listPods_def getDeployment_def emit_def withRunningPods_def runningPod_def
          tagOf_def Debug_def initState_def quietGateway_simps testCluster_simps)
  have 2: "awaitOnosTopoDeploymentReady configDebugCluster (withRunningPods [''onos-topo-0''] quietGateway) initState
     = Some (None, initState\<lparr>calls :=
         [ListPods ''c1'' ''app=onos,type=topo'', Execute ''onos-topo-0'' dlvCommand,
          GetDeployment ''c1'' ''onos-topo'']\<rparr>)"
    unfolding awaitOnosTopoDeploymentReady_def
    by (subst awaitOnosTopoLoop.simps)
       (simp add: listPods_def getDeployment_def execute_def emit_def withRunningPods_def runningPod_def
          tagOf_def Debug_def initState_def configDebugCluster_def quietGateway_simps testCluster_simps)
  show ?thesis using 1 2 by (simp add: tagOf_def Debug_def configDebugCluster_def testCluster_simps)
qed

section \<open>The device loops\<close>

lemma upto_as_upt: "[0..int N - 1] = map int [0..<N]"
proof (induction N)
  case 0 show ?case by simp
next
  case (Suc N)
  have "[0..int (Suc N) - 1] = [0..int N - 1] @ [int N]"
    using upto_rec2[of 0 "int N"] by simp
  with Suc show ?case by simp
qed

lemma addNetworkLoop_cliSeq:
  "addNetworkLoop g name n i port s =
     cliSeq g (map (\<lambda>k. addDeviceCommand ''Stratum'' (name @ ''-s'' @ Itoa k) (port - i + k)) [i..n - 1]) s"
proof (induction g name n i port s rule: addNetworkLoop.induct)
  case (1 g name n i port s)
  show ?case
  proof (cases "i < n")
    case False
    then show ?thesis by (simp add: addNetworkLoop.simps)
  next
    case True
    then have l: "[i..n - 1] = i # [i + 1..n - 1]" by (simp add: upto_rec1)
    show ?thesis
    proof (cases "addDevice g ''Stratum'' (name @ ''-s'' @ Itoa i) port s")
      case (Pair r s')
      show ?thesis
      proof (cases r)
        case None
        with "1.IH"[OF True Pair[symmetric]] Pair True l show ?thesis
          by (subst addNetworkLoop.simps) (simp add: addDevice_def)
      next
        case (Some err)
        with Pair True l show ?thesis
          by (subst addNetworkLoop.simps) (simp add: addDevice_def)
      qed
    qed
  qed
qed

lemma removeNetworkLoop_cliSeq:
  "removeNetworkLoop g name n i s =
     cliSeq g (map (\<lambda>k. removeDeviceCommand (name @ ''-s'' @ Itoa k)) [i..n - 1]) s"
proof (induction g name n i s rule: removeNetworkLoop.induct)
  case (1 g name n i s)
  show ?case
  proof (cases "i < n")
    case False
    then show ?thesis by (simp add: removeNetworkLoop.simps)
  next
    case True
    then have l: "[i..n - 1] = i # [i + 1..n - 1]" by (simp add: upto_rec1)
    show ?thesis
    proof (cases "removeDevice g (name @ ''-s'' @ Itoa i) s")
      case (Pair r s')
      show ?thesis
      proof (cases r)
        case None
        with "1.IH"[OF True Pair[symmetric]] Pair True l show ?thesis
          by (subst removeNetworkLoop.simps) (simp add: removeDevice_def)
      next
        case (Some err)
        with Pair True l show ?thesis
          by (subst removeNetworkLoop.simps) (simp add: removeDevice_def)
      qed
    qed
  qed
qed

lemma cliSeq_all_ok:
  "(\<And>j. j < length cmds \<Longrightarrow> executeCLI_resp g (calls s @ map ExecuteCLI (take j cmds)) (cmds ! j) = None)
   \<Longrightarrow> cliSeq g cmds s = (None, s\<lparr>calls := calls s @ map ExecuteCLI cmds\<rparr>)"
proof (induction cmds arbitrary: s)
  case Nil
  show ?case by simp
next
  case (Cons cmd cmds)
  have r0: "executeCLI_resp g (calls s) cmd = None"
    using Cons.prems[of 0] by simp
  have "cliSeq g cmds (emit (ExecuteCLI cmd) s)
      = (None, (emit (ExecuteCLI cmd) s)\<lparr>calls := calls (emit (ExecuteCLI cmd) s) @ map ExecuteCLI cmds\<rparr>)"
  proof (rule Cons.IH)
    fix j assume "j < length cmds"
    then show "executeCLI_resp g (calls (emit (ExecuteCLI cmd) s) @ map ExecuteCLI (take j cmds)) (cmds ! j) = None"
      using Cons.prems[of "Suc j"] by (simp add: emit_def)
  qed
  with r0 show ?case by (simp add: executeCLI_def emit_def)
qed

lemma cliSeq_first_error:
  "k < length cmds \<Longrightarrow>
   (\<And>j. j < k \<Longrightarrow> executeCLI_resp g (calls s @ map ExecuteCLI (take j cmds)) (cmds ! j) = None) \<Longrightarrow>
   executeCLI_resp g (calls s @ map ExecuteCLI (take k cmds)) (cmds ! k) = Some err
   \<Longrightarrow> cliSeq g cmds s = (Some err, s\<lparr>calls := calls s @ map ExecuteCLI (take (Suc k) cmds)\<rparr>)"
proof (induction cmds arbitrary: s k)
  case Nil
  then show ?case by simp
next
  case (Cons cmd cmds)
  show ?case
  proof (cases k)
    case 0
    with Cons.prems(3) show ?thesis by (simp add: executeCLI_def emit_def)
  next
    case (Suc k')
    have r0: "executeCLI_resp g (calls s) cmd = None"
      using Cons.prems(2)[of 0] Suc by simp
    have "cliSeq g cmds (emit (ExecuteCLI cmd) s)
      = (Some err, (emit (ExecuteCLI cmd) s)\<lparr>calls := calls (emit (ExecuteCLI cmd) s) @ map ExecuteCLI (take (Suc k') cmds)\<rparr>)"
    proof (rule Cons.IH)
      show "k' < length cmds" using Cons.prems(1) Suc by simp
    next
      fix j assume "j < k'"
      then show "executeCLI_resp g (calls (emit (ExecuteCLI cmd) s) @ map ExecuteCLI (take j cmds)) (cmds ! j) = None"
        using Cons.prems(2)[of "Suc j"] Suc by (simp add: emit_def)
    next
      show "executeCLI_resp g (calls (emit (ExecuteCLI cmd) s) @ map ExecuteCLI (take k' cmds)) (cmds ! k') = Some err"
        using Cons.prems(3) Suc by (simp add: emit_def)
    qed
    with r0 Suc show ?thesis by (simp add: executeCLI_def emit_def)
  qed
qed


section \<open>Adding a network to the topology\<close>

text \<open>
  Claim C8.  For every \<open>N \<ge> 0\<close>, \<open>addNetworkToTopo\<close> with \<open>NumDevices = N\<close> issues the \<open>N\<close>
  \<open>addDevice\<close> commands in order, the \<open>i\<close>-th (from 0) for device \<open>name-s<i>\<close> of type Stratum
  at port \<open>50001 + i\<close>, when none of them fails; when the \<open>k\<close>-th is the first to fail, it
  has issued the commands \<open>0\<close> to \<open>k\<close> and no other, and returns that error.  \<open>resp j\<close> is the
  answer of the environment to the \<open>j\<close>-th command after the ones before it.
\<close>

theorem addNetworkToTopo_calls:
  fixes N :: nat
  assumes "NumDevices cfg = int N"
  shows "let cmds = map (\<lambda>i. addDeviceCommand ''Stratum'' (name @ ''-s'' @ Itoa (int i)) (50001 + int i)) [0..<N];
             resp = (\<lambda>j. executeCLI_resp g (calls s @ map ExecuteCLI (take j cmds)) (cmds ! j))
         in ((\<forall>j<N. resp j = None) \<longrightarrow>
               addNetworkToTopo g name cfg s = (None, s\<lparr>calls := calls s @ map ExecuteCLI cmds\<rparr>))
          \<and> (\<forall>k err. k < N \<and> (\<forall>j<k. resp j = None) \<and> resp k = Some err \<longrightarrow>
               addNetworkToTopo g name cfg s
                 = (Some err, s\<lparr>calls := calls s @ map ExecuteCLI (take (Suc k) cmds)\<rparr>))"
proof -
  let ?cmds = "map (\<lambda>i. addDeviceCommand ''Stratum'' (name @ ''-s'' @ Itoa (int i)) (50001 + int i)) [0..<N]"
  have run: "addNetworkToTopo g name cfg s = cliSeq g ?cmds s"
    using assms by (simp add: addNetworkToTopo_def addNetworkLoop_cliSeq upto_as_upt comp_def)
  have len: "length ?cmds = N" by simp
  show ?thesis
    unfolding Let_def run
  proof (intro conjI allI impI)
    assume "\<forall>j<N. executeCLI_resp g (calls s @ map ExecuteCLI (take j ?cmds)) (?cmds ! j) = None"
    then show "cliSeq g ?cmds s = (None, s\<lparr>calls := calls s @ map ExecuteCLI ?cmds\<rparr>)"
      by (intro cliSeq_all_ok) (simp only: len)
  next
    fix k err
    assume h: "k < N \<and> (\<forall>j<k. executeCLI_resp g (calls s @ map ExecuteCLI (take j ?cmds)) (?cmds ! j) = None)
        \<and> executeCLI_resp g (calls s @ map ExecuteCLI (take k ?cmds)) (?cmds ! k) = Some err"
    then show "cliSeq g ?cmds s = (Some err, s\<lparr>calls := calls s @ map ExecuteCLI (take (Suc k) ?cmds)\<rparr>)"
      by (intro cliSeq_first_error) (simp_all only: len)
  qed
qed

theorem addNetworkToTopo_calls_witness:
  "NumDevices \<lparr>NumDevices = 2\<rparr> = int 2
   \<and> addNetworkToTopo quietGateway ''net'' \<lparr>NumDevices = 2\<rparr> initState
       = (None, initState\<lparr>calls :=
           [ExecuteCLI ''onos topo add device net-s0 --type Stratum --address net-s0:50001 --version 1.0.0 --plain --timeout 15s'',
            ExecuteCLI ''onos topo add device net-s1 --type Stratum --address net-s1:50002 --version 1.0.0 --plain --timeout 15s'']\<rparr>)
   \<and> addNetworkToTopo (cliFailsAfter 1) ''net'' \<lparr>NumDevices = 3\<rparr> initState
       = (Some (Err ''command terminated with exit code 1''), initState\<lparr>calls :=
           [ExecuteCLI ''onos topo add device net-s0 --type Stratum --address net-s0:50001 --version 1.0.0 --plain --timeout 15s'',
            ExecuteCLI ''onos topo add device net-s1 --type Stratum --address net-s1:50002 --version 1.0.0 --plain --timeout 15s'']\<rparr>)"
proof -
  have d: "[0..<2] = [0, Suc 0]" "[0..<3] = [0, Suc 0, Suc (Suc 0)]"
    by (simp_all add: upt_rec)
  have ok: "addNetworkToTopo quietGateway ''net'' \<lparr>NumDevices = 2\<rparr> initState
       = (None, initState\<lparr>calls :=
           [ExecuteCLI ''onos topo add device net-s0 --type Stratum --address net-s0:50001 --version 1.0.0 --plain --timeout 15s'',
            ExecuteCLI ''onos topo add device net-s1 --type Stratum --address net-s1:50002 --version 1.0.0 --plain --timeout 15s'']\<rparr>)"
    using addNetworkToTopo_calls[where cfg="\<lparr>NumDevices = 2\<rparr>" and N=2 and g=quietGateway and s=initState and name="''net''"]
    by (simp add: Let_def d quietGateway_def initState_def addDeviceCommand_def Itoa_def digits.simps digit_char_def)
  have stop: "addNetworkToTopo (cliFailsAfter 1) ''net'' \<lparr>NumDevices = 3\<rparr> initState
       = (Some (Err ''command terminated with exit code 1''), initState\<lparr>calls :=
           [ExecuteCLI ''onos topo add device net-s0 --type Stratum --address net-s0:50001 --version 1.0.0 --plain --timeout 15s'',
            ExecuteCLI ''onos topo add device net-s1 --type Stratum --address net-s1:50002 --version 1.0.0 --plain --timeout 15s'']\<rparr>)"
    using addNetworkToTopo_calls[where cfg="\<lparr>NumDevices = 3\<rparr>" and N=3 and g="cliFailsAfter 1" and s=initState and name="''net''", unfolded Let_def, THEN conjunct2, rule_format, of 1 "Err ''command terminated with exit code 1''"]
    by (simp add: d cliFailsAfter_def quietGateway_def initState_def addDeviceCommand_def Itoa_def digits.simps digit_char_def)
  show ?thesis using ok stop by simp
qed


section \<open>Two-step lifecycle operations\<close>

text \<open>
  Claim C4, as the code has it.  When the first step of \<open>AddSimulator\<close> or \<open>AddNetwork\<close>
  (provisioning) fails, the operation returns the failed status at once and the topology
  step does not run.  When the first step of \<open>RemoveSimulator\<close> or \<open>RemoveNetwork\<close>
  (teardown) fails, the failure is recorded in the status writer and the reconciliation
  step still runs, from the state \<open>s4\<close> in which the failure is on record.
  \<open>RemoveSimulator\<close> then ends with the failure or success of the reconciliation step, and
  so does \<open>RemoveNetwork\<close> whenever its reconciliation step returns, with an error or
  without one (where that step panics there is no status at all, which is claim C10).
\<close>

theorem lifecycle_first_step_failure:
  "(helper_resp g (calls s @ [StatusStart ''Setting up simulator'']) (SetupSimulator name) = Some err \<longrightarrow>
      calls (snd (AddSimulator g name cfg s))
        = calls s @ [StatusStart ''Setting up simulator'', Helper (SetupSimulator name), StatusFail err]
      \<and> Failed (fst (AddSimulator g name cfg s)))
   \<and> (helper_resp g (calls s @ [StatusStart ''Setting up network'']) (SetupNetwork name (NumDevices ncfg)) = Some err \<longrightarrow>
      calls (snd (AddNetwork g name ncfg s))
        = calls s @ [StatusStart ''Setting up network'', Helper (SetupNetwork name (NumDevices ncfg)), StatusFail err]
      \<and> Failed (fst (AddNetwork g name ncfg s)))
   \<and> (helper_resp g (calls s @ [StatusStart ''Tearing down simulator'']) (TeardownSimulator name) = Some err \<longrightarrow>
      calls (snd (RemoveSimulator g name s))
        = calls s @ [StatusStart ''Tearing down simulator'', Helper (TeardownSimulator name), StatusFail err,
             StatusStart ''Reconfiguring topology'', ExecuteCLI (removeDeviceCommand name),
             (case executeCLI_resp g (calls s @ [StatusStart ''Tearing down simulator'',
                     Helper (TeardownSimulator name), StatusFail err, StatusStart ''Reconfiguring topology''])
                   (removeDeviceCommand name) of
                None \<Rightarrow> StatusSucceed | Some err' \<Rightarrow> StatusFail err')]
      \<and> (''Tearing down simulator'', err) \<in> set (errors (status (snd (RemoveSimulator g name s)))))
   \<and> (helper_resp g (calls s @ [StatusStart ''Tearing down network'',
            ListConfigMaps (clusterID c) (''network='' @ name)]) (TeardownNetwork name) = Some err \<longrightarrow>
      (\<forall>s4 r s5.
          calls s4 = calls s @ [StatusStart ''Tearing down network'',
                 ListConfigMaps (clusterID c) (''network='' @ name), Helper (TeardownNetwork name),
                 StatusFail err, StatusStart ''Reconfiguring topology'']
          \<and> stdout s4 = stdout s
          \<and> status s4 = (status s)\<lparr>step := ''Reconfiguring topology'', failed := True,
                 errors := errors (status s) @ [(''Tearing down network'', err)]\<rparr>
          \<and> removeNetworkFromConfig yaml g name
                     (fst (listConfigMaps_resp g (calls s @ [StatusStart ''Tearing down network''])
                        (clusterID c) (''network='' @ name))) s4 = (Inr r, s5) \<longrightarrow>
          RemoveNetwork yaml c g name s =
             (case r of Some err' \<Rightarrow> (Inr (fst (Fail err' s5)), snd (Fail err' s5))
                      | None \<Rightarrow> (Inr (fst (Succeed s5)), snd (Succeed s5)))))"
proof (intro conjI impI allI)
  assume "helper_resp g (calls s @ [StatusStart ''Setting up simulator'']) (SetupSimulator name) = Some err"
  then show "calls (snd (AddSimulator g name cfg s))
        = calls s @ [StatusStart ''Setting up simulator'', Helper (SetupSimulator name), StatusFail err]"
    and "Failed (fst (AddSimulator g name cfg s))"
    by (simp_all add: AddSimulator_def callHelper_def)
next
  assume "helper_resp g (calls s @ [StatusStart ''Setting up network'']) (SetupNetwork name (NumDevices ncfg)) = Some err"
  then show "calls (snd (AddNetwork g name ncfg s))
        = calls s @ [StatusStart ''Setting up network'', Helper (SetupNetwork name (NumDevices ncfg)), StatusFail err]"
    and "Failed (fst (AddNetwork g name ncfg s))"
    by (simp_all add: AddNetwork_def callHelper_def)
next
  assume h: "helper_resp g (calls s @ [StatusStart ''Tearing down simulator'']) (TeardownSimulator name) = Some err"
  then show "calls (snd (RemoveSimulator g name s))
        = calls s @ [StatusStart ''Tearing down simulator'', Helper (TeardownSimulator name), StatusFail err,
             StatusStart ''Reconfiguring topology'', ExecuteCLI (removeDeviceCommand name),
             (case executeCLI_resp g (calls s @ [StatusStart ''Tearing down simulator'',
                     Helper (TeardownSimulator name), StatusFail err, StatusStart ''Reconfiguring topology''])
                   (removeDeviceCommand name) of
                None \<Rightarrow> StatusSucceed | Some err' \<Rightarrow> StatusFail err')]"
    by (simp add: RemoveSimulator_def callHelper_def removeSimulatorFromConfig_def removeDevice_def
        executeCLI_def Let_def split: option.split)
  from h show "(''Tearing down simulator'', err) \<in> set (errors (status (snd (RemoveSimulator g name s))))"
    by (simp add: RemoveSimulator_def callHelper_def removeSimulatorFromConfig_def removeDevice_def
        executeCLI_def Let_def Start_def Fail_def Succeed_def emit_def split: option.split)
next
  fix s4 r s5
  assume h: "helper_resp g (calls s @ [StatusStart ''Tearing down network'',
            ListConfigMaps (clusterID c) (''network='' @ name)]) (TeardownNetwork name) = Some err"
  assume a: "calls s4 = calls s @ [StatusStart ''Tearing down network'',
                 ListConfigMaps (clusterID c) (''network='' @ name), Helper (TeardownNetwork name),
                 StatusFail err, StatusStart ''Reconfiguring topology'']
          \<and> stdout s4 = stdout s
          \<and> status s4 = (status s)\<lparr>step := ''Reconfiguring topology'', failed := True,
                 errors := errors (status s) @ [(''Tearing down network'', err)]\<rparr>
          \<and> removeNetworkFromConfig yaml g name
                     (fst (listConfigMaps_resp g (calls s @ [StatusStart ''Tearing down network''])
                        (clusterID c) (''network='' @ name))) s4 = (Inr r, s5)"
  let ?s4 = "Start ''Reconfiguring topology'' (snd (Fail err (emit (Helper (TeardownNetwork name))
     (emit (ListConfigMaps (clusterID c) (''network='' @ name)) (Start ''Tearing down network'' s)))))"
  have eq: "s4 = ?s4"
    using a by (intro state.equality) (simp_all add: Start_def Fail_def emit_def Let_def)
  have run: "RemoveNetwork yaml c g name s =
             (case removeNetworkFromConfig yaml g name
                     (fst (listConfigMaps_resp g (calls s @ [StatusStart ''Tearing down network''])
                        (clusterID c) (''network='' @ name))) ?s4 of
                (Inl p, s5) \<Rightarrow> (Inl p, s5)
              | (Inr (Some err'), s5) \<Rightarrow> (Inr (fst (Fail err' s5)), snd (Fail err' s5))
              | (Inr None, s5) \<Rightarrow> (Inr (fst (Succeed s5)), snd (Succeed s5)))"
    using h by (simp add: RemoveNetwork_def listConfigMaps_def callHelper_def Let_def case_prod_beta
        split: sum.split option.split)
  from a have "removeNetworkFromConfig yaml g name
                     (fst (listConfigMaps_resp g (calls s @ [StatusStart ''Tearing down network''])
                        (clusterID c) (''network='' @ name))) ?s4 = (Inr r, s5)"
    unfolding eq by simp
  then show "RemoveNetwork yaml c g name s =
             (case r of Some err' \<Rightarrow> (Inr (fst (Fail err' s5)), snd (Fail err' s5))
                      | None \<Rightarrow> (Inr (fst (Succeed s5)), snd (Succeed s5)))"
    unfolding run by (simp split: option.split)
qed

theorem lifecycle_first_step_failure_witness:
  "calls (snd (AddSimulator (helpersFail quietGateway) ''sim'' () initState))
     = [StatusStart ''Setting up simulator'', Helper (SetupSimulator ''sim''), StatusFail (Err ''helper failed'')]
   \<and> calls (snd (AddNetwork (helpersFail quietGateway) ''net'' \<lparr>NumDevices = 2\<rparr> initState))
     = [StatusStart ''Setting up network'', Helper (SetupNetwork ''net'' 2), StatusFail (Err ''helper failed'')]
   \<and> calls (snd (RemoveSimulator (helpersFail quietGateway) ''sim'' initState))
     = [StatusStart ''Tearing down simulator'', Helper (TeardownSimulator ''sim''),
        StatusFail (Err ''helper failed''), StatusStart ''Reconfiguring topology'',
        ExecuteCLI ''onos topo remove device sim'', StatusSucceed]
   \<and> RemoveNetwork exampleYaml testCluster
        (withNetworkConfig ''numdevices: 2'' (helpersFail quietGateway)) ''net'' initState
     = (Inr \<lparr>step = ''Reconfiguring topology'', failed = False,
              errors = [(''Tearing down network'', Err ''helper failed'')]\<rparr>,
        \<lparr>calls = [StatusStart ''Tearing down network'', ListConfigMaps ''c1'' ''network=net'',
           Helper (TeardownNetwork ''net''), StatusFail (Err ''helper failed''),
           StatusStart ''Reconfiguring topology'',
           ExecuteCLI ''onos topo remove device net-s0'', ExecuteCLI ''onos topo remove device net-s1'',
           StatusSucceed],
         stdout = [],
         status = \<lparr>step = ''Reconfiguring topology'', failed = False,
                    errors = [(''Tearing down network'', Err ''helper failed'')]\<rparr>\<rparr>)
   \<and> RemoveNetwork exampleYaml testCluster
        (withNetworkConfig ''numdevices: 2'' (helpersFail (cliFailsAfter 0))) ''net'' initState
     = (Inr \<lparr>step = ''Reconfiguring topology'', failed = True,
              errors = [(''Tearing down network'', Err ''helper failed''),
                        (''Reconfiguring topology'', Err ''command terminated with exit code 1'')]\<rparr>,
        \<lparr>calls = [StatusStart ''Tearing down network'', ListConfigMaps ''c1'' ''network=net'',
           Helper (TeardownNetwork ''net''), StatusFail (Err ''helper failed''),
           StatusStart ''Reconfiguring topology'',
           ExecuteCLI ''onos topo remove device net-s0'',
           StatusFail (Err ''command terminated with exit code 1'')],
         stdout = [],
         status = \<lparr>step = ''Reconfiguring topology'', failed = True,
                    errors = [(''Tearing down network'', Err ''helper failed''),
                              (''Reconfiguring topology'', Err ''command terminated with exit code 1'')]\<rparr>\<rparr>)"
proof -
  note th = lifecycle_first_step_failure[where s=initState
      and err="Err ''helper failed''" and c=testCluster and yaml=exampleYaml]
  let ?s4 = "\<lparr>calls = [StatusStart ''Tearing down network'', ListConfigMaps ''c1'' ''network=net'',
         Helper (TeardownNetwork ''net''), StatusFail (Err ''helper failed''),
         StatusStart ''Reconfiguring topology''],
       stdout = [],
       status = \<lparr>step = ''Reconfiguring topology'', failed = True,
                  errors = [(''Tearing down network'', Err ''helper failed'')]\<rparr>\<rparr>"
  let ?cms = "Some \<lparr>Items = [\<lparr>BinaryData = [''config'' \<mapsto> ''numdevices: 2'']\<rparr>]\<rparr>"
  let ?gA = "withNetworkConfig ''numdevices: 2'' (helpersFail quietGateway)"
  let ?gB = "withNetworkConfig ''numdevices: 2'' (helpersFail (cliFailsAfter 0))"
  have 1: "calls (snd (AddSimulator (helpersFail quietGateway) ''sim'' () initState))
     = [StatusStart ''Setting up simulator'', Helper (SetupSimulator ''sim''), StatusFail (Err ''helper failed'')]"
    using th[where g="helpersFail quietGateway" and name="''sim''" and cfg="()", THEN conjunct1]
    by (simp add: helpersFail_def initState_def)
  have 2: "calls (snd (AddNetwork (helpersFail quietGateway) ''net'' \<lparr>NumDevices = 2\<rparr> initState))
     = [StatusStart ''Setting up network'', Helper (SetupNetwork ''net'' 2), StatusFail (Err ''helper failed'')]"
    using th[where g="helpersFail quietGateway" and name="''net''" and ncfg="\<lparr>NumDevices = 2\<rparr>",
        THEN conjunct2, THEN conjunct1]
    by (simp add: helpersFail_def initState_def)
  have 3: "calls (snd (RemoveSimulator (helpersFail quietGateway) ''sim'' initState))
     = [StatusStart ''Tearing down simulator'', Helper (TeardownSimulator ''sim''),
        StatusFail (Err ''helper failed''), StatusStart ''Reconfiguring topology'',
        ExecuteCLI ''onos topo remove device sim'', StatusSucceed]"
    using th[where g="helpersFail quietGateway" and name="''sim''",
        THEN conjunct2, THEN conjunct2, THEN conjunct1]
    by (simp add: helpersFail_def quietGateway_def initState_def removeDeviceCommand_def)
  have recA: "removeNetworkFromConfig exampleYaml ?gA ''net'' ?cms ?s4
      = (Inr None, ?s4\<lparr>calls := calls ?s4 @ [ExecuteCLI ''onos topo remove device net-s0'',
           ExecuteCLI ''onos topo remove device net-s1'']\<rparr>)"
    by code_simp
  have recB: "removeNetworkFromConfig exampleYaml ?gB ''net'' ?cms ?s4
      = (Inr (Some (Err ''command terminated with exit code 1'')),
         ?s4\<lparr>calls := calls ?s4 @ [ExecuteCLI ''onos topo remove device net-s0'']\<rparr>)"
    by code_simp
  have 4: "RemoveNetwork exampleYaml testCluster ?gA ''net'' initState
     = (Inr \<lparr>step = ''Reconfiguring topology'', failed = False,
              errors = [(''Tearing down network'', Err ''helper failed'')]\<rparr>,
        \<lparr>calls = [StatusStart ''Tearing down network'', ListConfigMaps ''c1'' ''network=net'',
           Helper (TeardownNetwork ''net''), StatusFail (Err ''helper failed''),
           StatusStart ''Reconfiguring topology'',
           ExecuteCLI ''onos topo remove device net-s0'', ExecuteCLI ''onos topo remove device net-s1'',
           StatusSucceed],
         stdout = [],
         status = \<lparr>step = ''Reconfiguring topology'', failed = False,
                    errors = [(''Tearing down network'', Err ''helper failed'')]\<rparr>\<rparr>)"
    using th[where g="?gA" and name="''net''", THEN conjunct2, THEN conjunct2, THEN conjunct2,
        rule_format, of ?s4 None] recA
    by (simp add: withNetworkConfig_def helpersFail_def initState_def NewStatusWriter_def
        testCluster_simps Succeed_def emit_def Let_def)
  have 5: "RemoveNetwork exampleYaml testCluster ?gB ''net'' initState
     = (Inr \<lparr>step = ''Reconfiguring topology'', failed = True,
              errors = [(''Tearing down network'', Err ''helper failed''),
                        (''Reconfiguring topology'', Err ''command terminated with exit code 1'')]\<rparr>,
        \<lparr>calls = [StatusStart ''Tearing down network'', ListConfigMaps ''c1'' ''network=net'',
           Helper (TeardownNetwork ''net''), StatusFail (Err ''helper failed''),
           StatusStart ''Reconfiguring topology'',
           ExecuteCLI ''onos topo remove device net-s0'',
           StatusFail (Err ''command terminated with exit code 1'')],
         stdout = [],
         status = \<lparr>step = ''Reconfiguring topology'', failed = True,
                    errors = [(''Tearing down network'', Err ''helper failed''),
                              (''Reconfiguring topology'', Err ''command terminated with exit code 1'')]\<rparr>\<rparr>)"
    using th[where g="?gB" and name="''net''", THEN conjunct2, THEN conjunct2, THEN conjunct2,
        rule_format, of ?s4 "Some (Err ''command terminated with exit code 1'')"] recB
    by (simp add: withNetworkConfig_def helpersFail_def initState_def NewStatusWriter_def
        testCluster_simps Fail_def emit_def Let_def)
  from 1 2 3 4 5 show ?thesis by blast
qed

text \<open>
  The provisioning step of \<open>AddSimulator\<close> and of \<open>AddNetwork\<close> fails: the operation ends
  there, no step "Adding ... to topo" is started and no device command is issued.
\<close>

theorem Add_aborts_counterexample:
  "calls (snd (AddSimulator (helpersFail quietGateway) ''sim'' () initState))
     = [StatusStart ''Setting up simulator'', Helper (SetupSimulator ''sim''), StatusFail (Err ''helper failed'')]
   \<and> calls (snd (AddNetwork (helpersFail quietGateway) ''net'' \<lparr>NumDevices = 2\<rparr> initState))
     = [StatusStart ''Setting up network'', Helper (SetupNetwork ''net'' 2), StatusFail (Err ''helper failed'')]"
  by code_simp

section \<open>Removing a network\<close>

lemma RemoveNetwork_calls_before:
  assumes "fst (listConfigMaps_resp g (calls s @ [StatusStart ''Tearing down network'']) (clusterID c) (''network='' @ name)) = Some l"
    and "Items l = cm # rest"
    and "yaml (case BinaryData cm ''config'' of None \<Rightarrow> [] | Some d \<Rightarrow> d) = Inr m"
    and "m ''numdevices'' = Some (YInt (int M))"
  shows "\<exists>s4. calls s4 = calls s @ [StatusStart ''Tearing down network'', ListConfigMaps (clusterID c) (''network='' @ name),
                 Helper (TeardownNetwork name)]
               @ (case helper_resp g (calls s @ [StatusStart ''Tearing down network'', ListConfigMaps (clusterID c) (''network='' @ name)]) (TeardownNetwork name) of None \<Rightarrow> [] | Some err \<Rightarrow> [StatusFail err])
               @ [StatusStart ''Reconfiguring topology'']
       \<and> RemoveNetwork yaml c g name s =
           (case cliSeq g (map (\<lambda>i. removeDeviceCommand (name @ ''-s'' @ Itoa (int i))) [0..<M]) s4 of
              (Some err, s5) \<Rightarrow> (Inr (fst (Fail err s5)), snd (Fail err s5))
            | (None, s5) \<Rightarrow> (Inr (fst (Succeed s5)), snd (Succeed s5)))"
proof -
  let ?s1 = "emit (ListConfigMaps (clusterID c) (''network='' @ name)) (Start ''Tearing down network'' s)"
  let ?r1 = "helper_resp g (calls ?s1) (TeardownNetwork name)"
  let ?s2 = "emit (Helper (TeardownNetwork name)) ?s1"
  let ?s3 = "case ?r1 of Some err \<Rightarrow> snd (Fail err ?s2) | None \<Rightarrow> ?s2"
  let ?s4 = "Start ''Reconfiguring topology'' ?s3"
  have c4: "calls ?s4 = calls s @ [StatusStart ''Tearing down network'', ListConfigMaps (clusterID c) (''network='' @ name),
                 Helper (TeardownNetwork name)]
               @ (case helper_resp g (calls s @ [StatusStart ''Tearing down network'', ListConfigMaps (clusterID c) (''network='' @ name)]) (TeardownNetwork name) of None \<Rightarrow> [] | Some err \<Rightarrow> [StatusFail err])
               @ [StatusStart ''Reconfiguring topology'']"
    by (simp split: option.splits)
  have rec: "removeNetworkFromConfig yaml g name (Some l) ?s4 =
      (case cliSeq g (map (\<lambda>i. removeDeviceCommand (name @ ''-s'' @ Itoa (int i))) [0..<M]) ?s4 of (r, s') \<Rightarrow> (Inr r, s'))"
    using assms(2-4)
    by (simp add: removeNetworkFromConfig_def removeNetworkLoop_cliSeq upto_as_upt comp_def)
  obtain q where q: "listConfigMaps_resp g (calls s @ [StatusStart ''Tearing down network'']) (clusterID c) (''network='' @ name) = (Some l, q)"
    using assms(1) by (cases "listConfigMaps_resp g (calls s @ [StatusStart ''Tearing down network'']) (clusterID c) (''network='' @ name)") simp
  have "RemoveNetwork yaml c g name s =
      (case removeNetworkFromConfig yaml g name (Some l) ?s4 of
                (Inl p, s4) \<Rightarrow> (Inl p, s4)
              | (Inr (Some err), s4) \<Rightarrow> (case Fail err s4 of (st, s5) \<Rightarrow> (Inr st, s5))
              | (Inr None, s4) \<Rightarrow> (case Succeed s4 of (st, s5) \<Rightarrow> (Inr st, s5)))"
    using q by (simp add: RemoveNetwork_def listConfigMaps_def callHelper_def Let_def split: option.splits)
  also have "\<dots> = (case cliSeq g (map (\<lambda>i. removeDeviceCommand (name @ ''-s'' @ Itoa (int i))) [0..<M]) ?s4 of
              (Some err, s5) \<Rightarrow> (Inr (fst (Fail err s5)), snd (Fail err s5))
            | (None, s5) \<Rightarrow> (Inr (fst (Succeed s5)), snd (Succeed s5)))"
    unfolding rec by (simp split: prod.splits option.splits)
  finally show ?thesis using c4 by blast
qed


text \<open>
  Claim C6, as the code has it.  Let the first config map listed for \<open>network=name\<close> hold a
  configuration that parses with \<open>numdevices = M\<close>.  Whether or not the teardown step
  failed (\<open>teardown\<close> is its answer, and a failure is recorded by \<open>StatusFail\<close>),
  \<open>RemoveNetwork\<close> then issues the \<open>removeDevice\<close> commands for \<open>name-s0\<close>, \<open>name-s1\<close>, ...
  in order: all \<open>M\<close> of them when none fails, and the commands \<open>0\<close> to \<open>k\<close> only when the
  \<open>k\<close>-th is the first to fail, after which the step fails with that error.
\<close>

theorem RemoveNetwork_removes_devices:
  fixes M :: nat
  assumes "fst (listConfigMaps_resp g (calls s @ [StatusStart ''Tearing down network'']) (clusterID c) (''network='' @ name)) = Some l"
    and "Items l = cm # rest"
    and "yaml (case BinaryData cm ''config'' of None \<Rightarrow> [] | Some d \<Rightarrow> d) = Inr m"
    and "m ''numdevices'' = Some (YInt (int M))"
  shows "let teardown = helper_resp g (calls s @ [StatusStart ''Tearing down network'',
                          ListConfigMaps (clusterID c) (''network='' @ name)]) (TeardownNetwork name);
             before = calls s @ [StatusStart ''Tearing down network'',
                          ListConfigMaps (clusterID c) (''network='' @ name), Helper (TeardownNetwork name)]
                        @ (case teardown of None \<Rightarrow> [] | Some err \<Rightarrow> [StatusFail err])
                        @ [StatusStart ''Reconfiguring topology''];
             cmds = map (\<lambda>i. removeDeviceCommand (name @ ''-s'' @ Itoa (int i))) [0..<M];
             resp = (\<lambda>j. executeCLI_resp g (before @ map ExecuteCLI (take j cmds)) (cmds ! j))
         in ((\<forall>j<M. resp j = None) \<longrightarrow>
               calls (snd (RemoveNetwork yaml c g name s)) = before @ map ExecuteCLI cmds @ [StatusSucceed])
          \<and> (\<forall>k err. k < M \<and> (\<forall>j<k. resp j = None) \<and> resp k = Some err \<longrightarrow>
               calls (snd (RemoveNetwork yaml c g name s))
                 = before @ map ExecuteCLI (take (Suc k) cmds) @ [StatusFail err])"
proof -
  let ?before = "calls s @ [StatusStart ''Tearing down network'',
                          ListConfigMaps (clusterID c) (''network='' @ name), Helper (TeardownNetwork name)]
                        @ (case helper_resp g (calls s @ [StatusStart ''Tearing down network'',
                          ListConfigMaps (clusterID c) (''network='' @ name)]) (TeardownNetwork name) of None \<Rightarrow> [] | Some err \<Rightarrow> [StatusFail err])
                        @ [StatusStart ''Reconfiguring topology'']"
  let ?cmds = "map (\<lambda>i. removeDeviceCommand (name @ ''-s'' @ Itoa (int i))) [0..<M]"
  obtain s4 where c4: "calls s4 = ?before"
    and run: "RemoveNetwork yaml c g name s =
           (case cliSeq g ?cmds s4 of
              (Some err, s5) \<Rightarrow> (Inr (fst (Fail err s5)), snd (Fail err s5))
            | (None, s5) \<Rightarrow> (Inr (fst (Succeed s5)), snd (Succeed s5)))"
    using RemoveNetwork_calls_before[where yaml=yaml and m=m and g=g and s=s and c=c and name=name and l=l and cm=cm and rest=rest and M=M, OF assms] by blast
  have len: "length ?cmds = M" by simp
  show ?thesis
    unfolding Let_def
  proof (intro conjI allI impI)
    assume "\<forall>j<M. executeCLI_resp g (?before @ map ExecuteCLI (take j ?cmds)) (?cmds ! j) = None"
    then have "cliSeq g ?cmds s4 = (None, s4\<lparr>calls := calls s4 @ map ExecuteCLI ?cmds\<rparr>)"
      unfolding c4[symmetric] by (intro cliSeq_all_ok) (simp only: len)
    then show "calls (snd (RemoveNetwork yaml c g name s)) = ?before @ map ExecuteCLI ?cmds @ [StatusSucceed]"
      unfolding run using c4 by simp
  next
    fix k err
    assume "k < M \<and> (\<forall>j<k. executeCLI_resp g (?before @ map ExecuteCLI (take j ?cmds)) (?cmds ! j) = None)
        \<and> executeCLI_resp g (?before @ map ExecuteCLI (take k ?cmds)) (?cmds ! k) = Some err"
    then have "cliSeq g ?cmds s4 = (Some err, s4\<lparr>calls := calls s4 @ map ExecuteCLI (take (Suc k) ?cmds)\<rparr>)"
      unfolding c4[symmetric] by (intro cliSeq_first_error) (simp_all only: len)
    then show "calls (snd (RemoveNetwork yaml c g name s)) = ?before @ map ExecuteCLI (take (Suc k) ?cmds) @ [StatusFail err]"
      unfolding run using c4 by simp
  qed
qed



theorem RemoveNetwork_removes_devices_witness:
  "calls (snd (RemoveNetwork exampleYaml testCluster
       (withNetworkConfig ''numdevices: 2'' (helpersFail quietGateway)) ''net'' initState))
     = [StatusStart ''Tearing down network'', ListConfigMaps ''c1'' ''network=net'',
        Helper (TeardownNetwork ''net''), StatusFail (Err ''helper failed''),
        StatusStart ''Reconfiguring topology'',
        ExecuteCLI ''onos topo remove device net-s0'', ExecuteCLI ''onos topo remove device net-s1'',
        StatusSucceed]
   \<and> calls (snd (RemoveNetwork exampleYaml testCluster
       (withNetworkConfig ''numdevices: 2'' (cliFailsAfter 1)) ''net'' initState))
     = [StatusStart ''Tearing down network'', ListConfigMaps ''c1'' ''network=net'',
        Helper (TeardownNetwork ''net''), StatusStart ''Reconfiguring topology'',
        ExecuteCLI ''onos topo remove device net-s0'', ExecuteCLI ''onos topo remove device net-s1'',
        StatusFail (Err ''command terminated with exit code 1'')]"
proof -
  let ?cm = "\<lparr>BinaryData = [''config'' \<mapsto> ''numdevices: 2'']\<rparr>"
  have a: "calls (snd (RemoveNetwork exampleYaml testCluster
       (withNetworkConfig ''numdevices: 2'' (helpersFail quietGateway)) ''net'' initState))
     = [StatusStart ''Tearing down network'', ListConfigMaps ''c1'' ''network=net'',
        Helper (TeardownNetwork ''net''), StatusFail (Err ''helper failed''),
        StatusStart ''Reconfiguring topology'',
        ExecuteCLI ''onos topo remove device net-s0'', ExecuteCLI ''onos topo remove device net-s1'',
        StatusSucceed]"
    using RemoveNetwork_removes_devices[where yaml=exampleYaml and c=testCluster and name="''net''"
        and g="withNetworkConfig ''numdevices: 2'' (helpersFail quietGateway)" and s=initState
        and l="\<lparr>Items = [?cm]\<rparr>" and cm="?cm" and rest="[]" and m="[''numdevices'' \<mapsto> YInt 2]" and M=2]
    by (simp add: Let_def upt_small withNetworkConfig_def helpersFail_def quietGateway_def
        initState_def testCluster_def exampleYaml_simps removeDeviceCommand_def Itoa_eval)
  have b: "calls (snd (RemoveNetwork exampleYaml testCluster
       (withNetworkConfig ''numdevices: 2'' (cliFailsAfter 1)) ''net'' initState))
     = [StatusStart ''Tearing down network'', ListConfigMaps ''c1'' ''network=net'',
        Helper (TeardownNetwork ''net''), StatusStart ''Reconfiguring topology'',
        ExecuteCLI ''onos topo remove device net-s0'', ExecuteCLI ''onos topo remove device net-s1'',
        StatusFail (Err ''command terminated with exit code 1'')]"
    using RemoveNetwork_removes_devices[where yaml=exampleYaml and c=testCluster and name="''net''"
        and g="withNetworkConfig ''numdevices: 2'' (cliFailsAfter 1)" and s=initState
        and l="\<lparr>Items = [?cm]\<rparr>" and cm="?cm" and rest="[]" and m="[''numdevices'' \<mapsto> YInt 2]" and M=2,
        unfolded Let_def, THEN conjunct2, rule_format, of 1 "Err ''command terminated with exit code 1''"]
    by (simp add: upt_small withNetworkConfig_def cliFailsAfter_def quietGateway_def
        initState_def testCluster_def exampleYaml_simps removeDeviceCommand_def Itoa_eval)
  show ?thesis using a b by simp
qed

text \<open>
  With \<open>numdevices = 2\<close> and a remote command line that fails at once, one \<open>removeDevice\<close>
  command is issued, not two.
\<close>

theorem RemoveNetwork_stops_counterexample:
  "(case exampleYaml ''numdevices: 2'' of Inl err \<Rightarrow> None | Inr m \<Rightarrow> m ''numdevices'') = Some (YInt 2)
   \<and> filter isExecuteCLI (calls (snd (RemoveNetwork exampleYaml testCluster
         (withNetworkConfig ''numdevices: 2'' (cliFailsAfter 0)) ''net'' initState)))
       = [ExecuteCLI ''onos topo remove device net-s0'']"
  by code_simp

lemma removeNetworkLoop_listing:
  "removeNetworkLoop (g\<lparr>listConfigMaps_resp := f\<rparr>) name n i s = removeNetworkLoop g name n i s"
proof (induction g name n i s rule: removeNetworkLoop.induct)
  case (1 g name numDevices i s)
  show ?case
  proof (cases "i < numDevices")
    case False
    then show ?thesis
      by (subst removeNetworkLoop.simps, subst (2) removeNetworkLoop.simps) simp
  next
    case True
    let ?r = "removeDevice g (name @ ''-s'' @ Itoa i) s"
    have same: "removeDevice (g\<lparr>listConfigMaps_resp := f\<rparr>) (name @ ''-s'' @ Itoa i) s = ?r"
      by (simp add: removeDevice_def executeCLI_def)
    show ?thesis
    proof (cases "fst ?r")
      case (Some err)
      then show ?thesis
        using True same
        by (subst removeNetworkLoop.simps, subst (2) removeNetworkLoop.simps)
           (simp add: case_prod_beta)
    next
      case None
      have "removeNetworkLoop (g\<lparr>listConfigMaps_resp := f\<rparr>) name numDevices (i + 1) (snd ?r)
          = removeNetworkLoop g name numDevices (i + 1) (snd ?r)"
        using 1[OF True, of None "snd ?r"] None by (cases ?r) simp
      then show ?thesis
        using True same None
        by (subst removeNetworkLoop.simps, subst (2) removeNetworkLoop.simps)
           (simp add: case_prod_beta)
    qed
  qed
qed

lemma removeNetworkFromConfig_listing:
  "removeNetworkFromConfig yaml (g\<lparr>listConfigMaps_resp := f\<rparr>) name cms s
     = removeNetworkFromConfig yaml g name cms s"
  unfolding removeNetworkFromConfig_def removeNetworkLoop_listing by (rule refl)

lemma RemoveNetwork_listing_error:
  "RemoveNetwork yaml c (g\<lparr>listConfigMaps_resp :=
        (\<lambda>tr ns sel. (fst (listConfigMaps_resp g tr ns sel), q tr ns sel))\<rparr>) name s
     = RemoveNetwork yaml c g name s"
  unfolding RemoveNetwork_def listConfigMaps_def callHelper_def removeNetworkFromConfig_listing
  by (simp add: case_prod_beta Let_def cong del: sum.case_cong_weak option.case_cong_weak)

lemma step_Fail: "step (fst (Fail err s)) = step (status s)"
  by (simp add: Fail_def Let_def)

lemma errors_Fail: "errors (fst (Fail err s)) = errors (status s) @ [(step (status s), err)]"
  by (simp add: Fail_def Let_def)

lemma status_Start: "status (Start label s) = (status s)\<lparr>step := label\<rparr>"
  by (simp add: Start_def emit_def)

text \<open>
  Claim C10, as the code has it.  Let the query for the config maps labelled
  \<open>network=name\<close> hand over the list \<open>l\<close>; \<open>teardown\<close> is the answer of the teardown step and
  \<open>before\<close> the calls up to the start of the reconciliation step.  \<open>RemoveNetwork\<close> panics
  when \<open>l\<close> is empty (the unchecked \<^verbatim>\<open>Items[0]\<close>), and when the configuration of the first
  map parses but \<open>numdevices\<close> is absent or not an \<^verbatim>\<open>int\<close> (the type assertion).  It
  returns a status in the two other cases.  When the configuration does not parse, the
  status is failed and carries the error of the parser under the label of the
  reconciliation step, that failure is the last call, and no device is removed.  When
  \<open>numdevices\<close> is an \<^verbatim>\<open>int\<close>, the status is that of the removal loop: failed unless the
  operation ends with the report of success.  Only the list of the query is looked at:
  whatever error \<open>q\<close> the query returns with the list, the operation is the same.
\<close>

theorem RemoveNetwork_outcome:
  assumes "fst (listConfigMaps_resp g (calls s @ [StatusStart ''Tearing down network''])
               (clusterID c) (''network='' @ name)) = Some l"
  shows "(let teardown = helper_resp g (calls s @ [StatusStart ''Tearing down network'',
                          ListConfigMaps (clusterID c) (''network='' @ name)]) (TeardownNetwork name);
             before = calls s @ [StatusStart ''Tearing down network'',
                          ListConfigMaps (clusterID c) (''network='' @ name), Helper (TeardownNetwork name)]
                        @ (case teardown of None \<Rightarrow> [] | Some e \<Rightarrow> [StatusFail e])
                        @ [StatusStart ''Reconfiguring topology''];
             R = RemoveNetwork yaml c g name s
         in (case Items l of
               [] \<Rightarrow> fst R = Inl IndexOutOfRange
             | cm # _ \<Rightarrow>
                 (case yaml (case BinaryData cm ''config'' of None \<Rightarrow> [] | Some d \<Rightarrow> d) of
                    Inl err \<Rightarrow>
                      (\<exists>st. fst R = Inr st \<and> Failed st \<and> step st = ''Reconfiguring topology''
                         \<and> errors st = errors (status s)
                              @ (case teardown of None \<Rightarrow> [] | Some e \<Rightarrow> [(''Tearing down network'', e)])
                              @ [(''Reconfiguring topology'', err)]
                         \<and> calls (snd R) = before @ [StatusFail err])
                  | Inr m \<Rightarrow>
                      (case m ''numdevices'' of
                         Some (YInt n) \<Rightarrow>
                           (\<exists>st. fst R = Inr st \<and> Failed st = (last (calls (snd R)) \<noteq> StatusSucceed))
                       | _ \<Rightarrow> fst R = Inl TypeAssertion))))
     \<and> RemoveNetwork yaml c (g\<lparr>listConfigMaps_resp :=
            (\<lambda>tr ns sel. (fst (listConfigMaps_resp g tr ns sel), q tr ns sel))\<rparr>) name s
         = RemoveNetwork yaml c g name s"
    (is "?A \<and> ?B")
proof (rule conjI)
  let ?sel = "''network='' @ name"
  let ?teardown = "helper_resp g (calls s @ [StatusStart ''Tearing down network'',
                          ListConfigMaps (clusterID c) ?sel]) (TeardownNetwork name)"
  let ?before = "calls s @ [StatusStart ''Tearing down network'',
                          ListConfigMaps (clusterID c) ?sel, Helper (TeardownNetwork name)]
                        @ (case ?teardown of None \<Rightarrow> [] | Some e \<Rightarrow> [StatusFail e])
                        @ [StatusStart ''Reconfiguring topology'']"
  let ?s2 = "emit (Helper (TeardownNetwork name)) (emit (ListConfigMaps (clusterID c) ?sel)
               (Start ''Tearing down network'' s))"
  define s4 where "s4 = Start ''Reconfiguring topology''
      (case ?teardown of Some err \<Rightarrow> snd (Fail err ?s2) | None \<Rightarrow> ?s2)"
  have c4: "calls s4 = ?before"
    unfolding s4_def by (simp split: option.splits)
  have st4: "step (status s4) = ''Reconfiguring topology''"
    unfolding s4_def by (simp add: status_Start)
  have e4: "errors (status s4) = errors (status s)
              @ (case ?teardown of None \<Rightarrow> [] | Some e \<Rightarrow> [(''Tearing down network'', e)])"
    unfolding s4_def by (simp add: Start_def Fail_def Let_def emit_def split: option.splits)
  obtain q' where q: "listConfigMaps_resp g (calls s @ [StatusStart ''Tearing down network'']) (clusterID c) ?sel = (Some l, q')"
    using assms by (cases "listConfigMaps_resp g (calls s @ [StatusStart ''Tearing down network'']) (clusterID c) ?sel") simp
  have run: "RemoveNetwork yaml c g name s =
      (case removeNetworkFromConfig yaml g name (Some l) s4 of
                (Inl p, s5) \<Rightarrow> (Inl p, s5)
              | (Inr (Some err), s5) \<Rightarrow> (Inr (fst (Fail err s5)), snd (Fail err s5))
              | (Inr None, s5) \<Rightarrow> (Inr (fst (Succeed s5)), snd (Succeed s5)))"
    unfolding s4_def using q
    by (simp add: RemoveNetwork_def listConfigMaps_def callHelper_def Let_def case_prod_beta
        split: option.splits sum.splits)
  show ?A
  proof (cases "Items l")
    case Nil
    have "removeNetworkFromConfig yaml g name (Some l) s4 = (Inl IndexOutOfRange, s4)"
      using Nil by (simp add: removeNetworkFromConfig_def)
    with Nil show ?thesis unfolding Let_def run by simp
  next
    case (Cons cm rest)
    show ?thesis
    proof (cases "yaml (case BinaryData cm ''config'' of None \<Rightarrow> [] | Some d \<Rightarrow> d)")
      case (Inl err)
      have "removeNetworkFromConfig yaml g name (Some l) s4 = (Inr (Some err), s4)"
        using Cons Inl by (simp add: removeNetworkFromConfig_def)
      then have R: "RemoveNetwork yaml c g name s = (Inr (fst (Fail err s4)), snd (Fail err s4))"
        unfolding run by simp
      show ?thesis
        unfolding Let_def R using Cons Inl c4 st4 e4 by (simp add: step_Fail errors_Fail)
    next
      case (Inr m)
      show ?thesis
      proof (cases "m ''numdevices''")
        case None
        have "removeNetworkFromConfig yaml g name (Some l) s4 = (Inl TypeAssertion, s4)"
          using Cons Inr None by (simp add: removeNetworkFromConfig_def)
        then show ?thesis unfolding Let_def run using Cons Inr None by simp
      next
        case (Some v)
        show ?thesis
        proof (cases "\<exists>n. v = YInt n")
          case False
          then have "removeNetworkFromConfig yaml g name (Some l) s4 = (Inl TypeAssertion, s4)"
            using Cons Inr Some by (cases v) (simp_all add: removeNetworkFromConfig_def)
          then show ?thesis unfolding Let_def run using Cons Inr Some False
            by (cases v) simp_all
        next
          case True
          then obtain n where v: "v = YInt n" by blast
          obtain r s5 where loop: "removeNetworkLoop g name n 0 s4 = (r, s5)"
            by (cases "removeNetworkLoop g name n 0 s4")
          have rec: "removeNetworkFromConfig yaml g name (Some l) s4 = (Inr r, s5)"
            using Cons Inr Some v loop by (simp add: removeNetworkFromConfig_def)
          have "\<exists>st. fst (RemoveNetwork yaml c g name s) = Inr st
                \<and> Failed st = (last (calls (snd (RemoveNetwork yaml c g name s))) \<noteq> StatusSucceed)"
            unfolding run rec by (cases r) simp_all
          then show ?thesis unfolding Let_def using Cons Inr Some v by simp
        qed
      qed
    qed
  qed
next
  show ?B by (rule RemoveNetwork_listing_error)
qed

theorem RemoveNetwork_outcome_witness:
  "fst (RemoveNetwork exampleYaml testCluster quietGateway ''net'' initState) = Inl IndexOutOfRange
   \<and> fst (RemoveNetwork exampleYaml testCluster
            (withNetworkConfig ''numdevices: two'' quietGateway) ''net'' initState) = Inl TypeAssertion
   \<and> fst (RemoveNetwork exampleYaml testCluster
            (withNetworkConfig ''devices: 2'' quietGateway) ''net'' initState) = Inl TypeAssertion
   \<and> (\<exists>st. fst (RemoveNetwork exampleYaml testCluster
                 (withNetworkConfig ''numdevices: 3'' quietGateway) ''net'' initState) = Inr st
          \<and> Failed st = (last (calls (snd (RemoveNetwork exampleYaml testCluster
                 (withNetworkConfig ''numdevices: 3'' quietGateway) ''net'' initState))) \<noteq> StatusSucceed))
   \<and> (\<exists>st. fst (RemoveNetwork exampleYaml testCluster
                 (withNetworkConfig ''{'' (helpersFail quietGateway)) ''net'' initState) = Inr st
          \<and> Failed st \<and> step st = ''Reconfiguring topology''
          \<and> errors st = [(''Tearing down network'', Err ''helper failed''),
               (''Reconfiguring topology'', Err ''YAML error: line 1: did not find expected node content'')])
   \<and> calls (snd (RemoveNetwork exampleYaml testCluster
                 (withNetworkConfig ''{'' (helpersFail quietGateway)) ''net'' initState))
       = [StatusStart ''Tearing down network'', ListConfigMaps ''c1'' ''network=net'',
          Helper (TeardownNetwork ''net''), StatusFail (Err ''helper failed''),
          StatusStart ''Reconfiguring topology'',
          StatusFail (Err ''YAML error: line 1: did not find expected node content'')]
   \<and> RemoveNetwork exampleYaml testCluster
        (withNetworkConfig ''numdevices: 3'' quietGateway
           \<lparr>listConfigMaps_resp := (\<lambda>tr ns sel.
              (fst (listConfigMaps_resp (withNetworkConfig ''numdevices: 3'' quietGateway) tr ns sel),
               Some (Err ''the server could not find the requested resource'')))\<rparr>) ''net'' initState
       = RemoveNetwork exampleYaml testCluster (withNetworkConfig ''numdevices: 3'' quietGateway) ''net'' initState"
proof -
  note th = RemoveNetwork_outcome[where s=initState and c=testCluster and name="''net''"
      and yaml=exampleYaml, unfolded Let_def]
  have 1: "fst (RemoveNetwork exampleYaml testCluster quietGateway ''net'' initState) = Inl IndexOutOfRange"
    using th[where g=quietGateway and l="\<lparr>Items = []\<rparr>", THEN conjunct1]
    by (simp add: quietGateway_simps)
  have 2: "fst (RemoveNetwork exampleYaml testCluster
            (withNetworkConfig ''numdevices: two'' quietGateway) ''net'' initState) = Inl TypeAssertion"
    using th[where g="withNetworkConfig ''numdevices: two'' quietGateway"
        and l="\<lparr>Items = [\<lparr>BinaryData = [''config'' \<mapsto> ''numdevices: two'']\<rparr>]\<rparr>", THEN conjunct1]
    by (simp add: withNetworkConfig_def exampleYaml_simps)
  have 3: "fst (RemoveNetwork exampleYaml testCluster
            (withNetworkConfig ''devices: 2'' quietGateway) ''net'' initState) = Inl TypeAssertion"
    using th[where g="withNetworkConfig ''devices: 2'' quietGateway"
        and l="\<lparr>Items = [\<lparr>BinaryData = [''config'' \<mapsto> ''devices: 2'']\<rparr>]\<rparr>", THEN conjunct1]
    by (simp add: withNetworkConfig_def exampleYaml_simps)
  have 4: "\<exists>st. fst (RemoveNetwork exampleYaml testCluster
                 (withNetworkConfig ''numdevices: 3'' quietGateway) ''net'' initState) = Inr st
          \<and> Failed st = (last (calls (snd (RemoveNetwork exampleYaml testCluster
                 (withNetworkConfig ''numdevices: 3'' quietGateway) ''net'' initState))) \<noteq> StatusSucceed)"
    using th[where g="withNetworkConfig ''numdevices: 3'' quietGateway"
        and l="\<lparr>Items = [\<lparr>BinaryData = [''config'' \<mapsto> ''numdevices: 3'']\<rparr>]\<rparr>", THEN conjunct1]
    by (simp add: withNetworkConfig_def exampleYaml_simps)
  have 5: "(\<exists>st. fst (RemoveNetwork exampleYaml testCluster
                 (withNetworkConfig ''{'' (helpersFail quietGateway)) ''net'' initState) = Inr st
          \<and> Failed st \<and> step st = ''Reconfiguring topology''
          \<and> errors st = [(''Tearing down network'', Err ''helper failed''),
               (''Reconfiguring topology'', Err ''YAML error: line 1: did not find expected node content'')])
     \<and> calls (snd (RemoveNetwork exampleYaml testCluster
                 (withNetworkConfig ''{'' (helpersFail quietGateway)) ''net'' initState))
       = [StatusStart ''Tearing down network'', ListConfigMaps ''c1'' ''network=net'',
          Helper (TeardownNetwork ''net''), StatusFail (Err ''helper failed''),
          StatusStart ''Reconfiguring topology'',
          StatusFail (Err ''YAML error: line 1: did not find expected node content'')]"
    using th[where g="withNetworkConfig ''{'' (helpersFail quietGateway)"
        and l="\<lparr>Items = [\<lparr>BinaryData = [''config'' \<mapsto> ''{'']\<rparr>]\<rparr>", THEN conjunct1]
    by (simp add: withNetworkConfig_def helpersFail_def exampleYaml_simps initState_def
        NewStatusWriter_def testCluster_simps, blast)
  have 6: "RemoveNetwork exampleYaml testCluster
        (withNetworkConfig ''numdevices: 3'' quietGateway
           \<lparr>listConfigMaps_resp := (\<lambda>tr ns sel.
              (fst (listConfigMaps_resp (withNetworkConfig ''numdevices: 3'' quietGateway) tr ns sel),
               Some (Err ''the server could not find the requested resource'')))\<rparr>) ''net'' initState
       = RemoveNetwork exampleYaml testCluster (withNetworkConfig ''numdevices: 3'' quietGateway) ''net'' initState"
    using th[where g="withNetworkConfig ''numdevices: 3'' quietGateway"
        and l="\<lparr>Items = [\<lparr>BinaryData = [''config'' \<mapsto> ''numdevices: 3'']\<rparr>]\<rparr>"
        and q="\<lambda>tr ns sel. Some (Err ''the server could not find the requested resource'')",
        THEN conjunct2]
    by (simp add: withNetworkConfig_def)
  from 1 2 3 4 5 6 show ?thesis by blast
qed

text \<open>
  A config map labelled for the network exists, and its stored configuration is an opened
  and never closed flow mapping: it does not parse, so it has no integer \<open>numdevices\<close>,
  yet the operation returns a status, a failed one that carries the error of the parser,
  instead of panicking.
\<close>

theorem RemoveNetwork_unparseable_counterexample:
  "(case exampleYaml ''{'' of Inl err \<Rightarrow> True | Inr m \<Rightarrow> False)
   \<and> fst (RemoveNetwork exampleYaml testCluster (withNetworkConfig ''{'' quietGateway) ''net'' initState)
       = Inr \<lparr>step = ''Reconfiguring topology'', failed = True,
               errors = [(''Reconfiguring topology'', Err ''YAML error: line 1: did not find expected node content'')]\<rparr>"
  by code_simp

section \<open>Errors while running tests\<close>

lemma readLoop_reads_ok:
  "(\<And>k. k < n \<Longrightarrow> snd (readLog_resp g (calls s @ replicate k (ReadLog (Name pod))) (Name pod)) = None)
   \<Longrightarrow> \<exists>out. readLoop g pod s
         = readLoop g pod (s\<lparr>calls := calls s @ replicate n (ReadLog (Name pod)), stdout := out\<rparr>)"
proof (induction n arbitrary: s)
  case 0
  have "s\<lparr>calls := calls s @ replicate 0 (ReadLog (Name pod)), stdout := stdout s\<rparr> = s" by simp
  then show ?case by metis
next
  case (Suc n)
  obtain bytes where r0: "readLog_resp g (calls s) (Name pod) = (bytes, None)"
    using Suc.prems[of 0] by (cases "readLog_resp g (calls s) (Name pod)") simp
  let ?s1 = "(emit (ReadLog (Name pod)) s)\<lparr>stdout := stdout s @ bytes\<rparr>"
  have step: "readLoop g pod s = readLoop g pod ?s1"
    using r0 by (subst readLoop.simps) (simp add: readLog_def emit_def)
  have "\<exists>out. readLoop g pod ?s1
         = readLoop g pod (?s1\<lparr>calls := calls ?s1 @ replicate n (ReadLog (Name pod)), stdout := out\<rparr>)"
  proof (rule Suc.IH)
    fix k assume "k < n"
    then show "snd (readLog_resp g (calls ?s1 @ replicate k (ReadLog (Name pod))) (Name pod)) = None"
      using Suc.prems[of "Suc k"] by (simp add: emit_def)
  qed
  then obtain out where "readLoop g pod ?s1
         = readLoop g pod (?s1\<lparr>calls := calls ?s1 @ replicate n (ReadLog (Name pod)), stdout := out\<rparr>)" ..
  moreover have "?s1\<lparr>calls := calls ?s1 @ replicate n (ReadLog (Name pod)), stdout := out\<rparr>
      = s\<lparr>calls := calls s @ replicate (Suc n) (ReadLog (Name pod)), stdout := out\<rparr>"
    by (simp add: emit_def)
  ultimately show ?case using step by metis
qed

lemma readLoop_result:
  assumes "\<And>k. k < n \<Longrightarrow> snd (readLog_resp g (calls s @ replicate k (ReadLog (Name pod))) (Name pod)) = None"
    and "snd (readLog_resp g (calls s @ replicate n (ReadLog (Name pod))) (Name pod)) = Some err"
  shows "\<exists>out. readLoop g pod s
           = Some (if err = EOF then None else Some err,
                   s\<lparr>calls := calls s @ replicate (Suc n) (ReadLog (Name pod)), stdout := out\<rparr>)"
proof -
  obtain out where skip: "readLoop g pod s
         = readLoop g pod (s\<lparr>calls := calls s @ replicate n (ReadLog (Name pod)), stdout := out\<rparr>)"
    using readLoop_reads_ok[OF assms(1)] by blast
  let ?s' = "s\<lparr>calls := calls s @ replicate n (ReadLog (Name pod)), stdout := out\<rparr>"
  obtain bytes where r: "readLog_resp g (calls ?s') (Name pod) = (bytes, Some err)"
    using assms(2) by (cases "readLog_resp g (calls s @ replicate n (ReadLog (Name pod))) (Name pod)") simp
  have "readLoop g pod ?s' = Some (if err = EOF then None else Some err, emit (ReadLog (Name pod)) ?s')"
    using r by (subst readLoop.simps) (simp add: readLog_def)
  moreover have "emit (ReadLog (Name pod)) ?s'
      = s\<lparr>calls := calls s @ replicate (Suc n) (ReadLog (Name pod)), stdout := out\<rparr>"
    by (simp add: emit_def replicate_append_same)
  ultimately show ?thesis using skip by metis
qed

text \<open>
  Claim C5, as the code has it.  Let the test job start, so that the step "Starting test
  job" has succeeded; \<open>st\<close> is the status writer at that point, not failed and with no new
  error.  An error while opening the log stream, or an error other than end-of-stream of a
  read after \<open>n\<close> reads that delivered data, ends \<open>RunTests\<close> with the empty message, exit
  code 0 and \<open>st\<close>: the error is dropped, not recorded.  When the stream ends and the
  terminal status of the pod cannot be retrieved, \<open>RunTests\<close> returns the message "failed to
  retrieve exit code", exit code 1 and \<open>st\<close>.
\<close>

theorem RunTests_errors:
  assumes "startTests_resp g (calls s @ [StatusStart (''Starting test job: '' @ testID)]) testID tests
             (if timeout = 0 then 600000000000 else timeout) = Inr pod"
  shows "let t = (if timeout = 0 then 600000000000 else timeout);
             tr = calls s @ [StatusStart (''Starting test job: '' @ testID), StartTests testID tests t,
                    StatusSucceed];
             st = (status s)\<lparr>step := ''Starting test job: '' @ testID, failed := False\<rparr>;
             rd = ReadLog (Name pod);
             opened = tr @ [StreamLogs (Name pod)]
         in \<not> Failed st \<and> errors st = errors (status s)
          \<and> (\<forall>err. streamLogs_resp g tr (Name pod) = Some err \<longrightarrow>
                (\<exists>s'. RunTests g testID tests timeout s = Some (([], 0, st), s') \<and> calls s' = opened))
          \<and> (\<forall>n err. streamLogs_resp g tr (Name pod) = None
                 \<and> (\<forall>k<n. snd (readLog_resp g (opened @ replicate k rd) (Name pod)) = None)
                 \<and> snd (readLog_resp g (opened @ replicate n rd) (Name pod)) = Some err \<and> err \<noteq> EOF \<longrightarrow>
                (\<exists>s'. RunTests g testID tests timeout s = Some (([], 0, st), s')
                   \<and> calls s' = opened @ replicate (Suc n) rd @ [CloseLog (Name pod)]))
          \<and> (\<forall>n err. streamLogs_resp g tr (Name pod) = None
                 \<and> (\<forall>k<n. snd (readLog_resp g (opened @ replicate k rd) (Name pod)) = None)
                 \<and> snd (readLog_resp g (opened @ replicate n rd) (Name pod)) = Some EOF
                 \<and> getStatus_resp g (opened @ replicate (Suc n) rd) (Name pod) = Inl err \<longrightarrow>
                (\<exists>s'. RunTests g testID tests timeout s = Some ((''failed to retrieve exit code'', 1, st), s')
                   \<and> calls s' = opened @ replicate (Suc n) rd @ [GetStatus (Name pod), CloseLog (Name pod)]))"
proof -
  let ?t = "if timeout = 0 then 600000000000 else timeout"
  let ?label = "''Starting test job: '' @ testID"
  let ?tr = "calls s @ [StatusStart ?label, StartTests testID tests ?t, StatusSucceed]"
  let ?st = "(status s)\<lparr>step := ?label, failed := False\<rparr>"
  let ?rd = "ReadLog (Name pod)"
  let ?opened = "?tr @ [StreamLogs (Name pod)]"
  let ?s2 = "snd (Succeed (emit (StartTests testID tests ?t) (Start ?label s)))"
  have c2: "calls ?s2 = ?tr" by simp
  have st2: "status ?s2 = ?st" by (simp add: Succeed_def Start_def emit_def Let_def)
  have run: "RunTests g testID tests timeout s =
      (case streamLogs g pod ?s2 of
         (Some err, s2) \<Rightarrow> Some (([], 0, status s2), s2)
       | (None, s2) \<Rightarrow>
           (case readLoop g pod s2 of
              None \<Rightarrow> None
            | Some (Some err, s3) \<Rightarrow> Some (([], 0, status s3), closeLog pod s3)
            | Some (None, s3) \<Rightarrow>
                (case getStatus g pod s3 of
                   (Inl err, s4) \<Rightarrow> Some ((''failed to retrieve exit code'', 1, status s4), closeLog pod s4)
                 | (Inr (message, code), s4) \<Rightarrow> Some ((message, code, status s4), closeLog pod s4))))"
  proof (cases "timeout = 0")
    case True
    with assms show ?thesis by (simp add: RunTests_def startTests_def Let_def)
  next
    case False
    with assms show ?thesis by (simp add: RunTests_def startTests_def Let_def)
  qed
  let ?s3 = "emit (StreamLogs (Name pod)) ?s2"
  have c3: "calls ?s3 = ?opened" by simp
  have st3: "status ?s3 = ?st" using st2 by simp
  have a: "\<not> Failed ?st \<and> errors ?st = errors (status s)" by (simp add: Failed_def)
  have b: "\<exists>s'. RunTests g testID tests timeout s = Some (([], 0, ?st), s') \<and> calls s' = ?opened"
    if "streamLogs_resp g ?tr (Name pod) = Some err" for err
    using that c2 st2 unfolding run by (simp add: streamLogs_def)
  have loop: "\<exists>out. readLoop g pod ?s3
           = Some (if err = EOF then None else Some err,
                   ?s3\<lparr>calls := ?opened @ replicate (Suc n) ?rd, stdout := out\<rparr>)"
    if "\<forall>k<n. snd (readLog_resp g (?opened @ replicate k ?rd) (Name pod)) = None"
      and "snd (readLog_resp g (?opened @ replicate n ?rd) (Name pod)) = Some err" for n err
    using readLoop_result[of n g ?s3 pod err] that unfolding c3 by simp
  have c: "\<exists>s'. RunTests g testID tests timeout s = Some (([], 0, ?st), s')
                   \<and> calls s' = ?opened @ replicate (Suc n) ?rd @ [CloseLog (Name pod)]"
    if h1: "streamLogs_resp g ?tr (Name pod) = None"
      and h2: "\<forall>k<n. snd (readLog_resp g (?opened @ replicate k ?rd) (Name pod)) = None"
      and h3: "snd (readLog_resp g (?opened @ replicate n ?rd) (Name pod)) = Some err" and h4: "err \<noteq> EOF" for n err
  proof -
    obtain out where "readLoop g pod ?s3
           = Some (Some err, ?s3\<lparr>calls := ?opened @ replicate (Suc n) ?rd, stdout := out\<rparr>)"
      using loop[OF h2 h3] h4 by auto
    then show ?thesis
      using h1 c2 st3 unfolding run by (simp add: streamLogs_def closeLog_def)
  qed
  have d: "\<exists>s'. RunTests g testID tests timeout s = Some ((''failed to retrieve exit code'', 1, ?st), s')
                   \<and> calls s' = ?opened @ replicate (Suc n) ?rd @ [GetStatus (Name pod), CloseLog (Name pod)]"
    if h1: "streamLogs_resp g ?tr (Name pod) = None"
      and h2: "\<forall>k<n. snd (readLog_resp g (?opened @ replicate k ?rd) (Name pod)) = None"
      and h3: "snd (readLog_resp g (?opened @ replicate n ?rd) (Name pod)) = Some EOF"
      and h4: "getStatus_resp g (?opened @ replicate (Suc n) ?rd) (Name pod) = Inl err" for n err
  proof -
    obtain out where "readLoop g pod ?s3
           = Some (None, ?s3\<lparr>calls := ?opened @ replicate (Suc n) ?rd, stdout := out\<rparr>)"
      using loop[OF h2 h3] by auto
    then show ?thesis
      using h1 h4 c2 st3 unfolding run by (simp add: streamLogs_def closeLog_def getStatus_def)
  qed
  show ?thesis
    unfolding Let_def using a b c d by blast
qed

theorem RunTests_errors_witness:
  "map_option fst (RunTests (streamFails quietGateway) ''t1'' [''suite.A''] 0 initState)
     = Some ([], 0, \<lparr>step = ''Starting test job: t1'', failed = False, errors = []\<rparr>)
   \<and> map_option fst (RunTests (readsThenError 2 (Err ''connection reset'') quietGateway) ''t1'' [''suite.A''] 0 initState)
     = Some ([], 0, \<lparr>step = ''Starting test job: t1'', failed = False, errors = []\<rparr>)
   \<and> map_option fst (RunTests (statusFails quietGateway) ''t1'' [''suite.A''] 0 initState)
     = Some (''failed to retrieve exit code'', 1, \<lparr>step = ''Starting test job: t1'', failed = False, errors = []\<rparr>)"
proof -
  let ?pod = "\<lparr>Name = ''t1'', ContainerStatuses = []\<rparr>"
  have 1: "map_option fst (RunTests (streamFails quietGateway) ''t1'' [''suite.A''] 0 initState)
     = Some ([], 0, \<lparr>step = ''Starting test job: t1'', failed = False, errors = []\<rparr>)"
    using RunTests_errors[where g="streamFails quietGateway" and s=initState and testID="''t1''"
        and tests="[''suite.A'']" and timeout=0 and pod="?pod",
        unfolded Let_def, THEN conjunct2, THEN conjunct2, THEN conjunct1, rule_format, of "Err ''stream error''"]
    by (auto simp: streamFails_def quietGateway_def initState_def NewStatusWriter_def)
  have 2: "map_option fst (RunTests (readsThenError 2 (Err ''connection reset'') quietGateway) ''t1'' [''suite.A''] 0 initState)
     = Some ([], 0, \<lparr>step = ''Starting test job: t1'', failed = False, errors = []\<rparr>)"
    using RunTests_errors[where g="readsThenError 2 (Err ''connection reset'') quietGateway" and s=initState and testID="''t1''"
        and tests="[''suite.A'']" and timeout=0 and pod="?pod",
        unfolded Let_def, THEN conjunct2, THEN conjunct2, THEN conjunct2, THEN conjunct1, rule_format, of 2 "Err ''connection reset''"]
    by (auto simp: readsThenError_def quietGateway_def initState_def NewStatusWriter_def)
  have 3: "map_option fst (RunTests (statusFails quietGateway) ''t1'' [''suite.A''] 0 initState)
     = Some (''failed to retrieve exit code'', 1, \<lparr>step = ''Starting test job: t1'', failed = False, errors = []\<rparr>)"
    using RunTests_errors[where g="statusFails quietGateway" and s=initState and testID="''t1''"
        and tests="[''suite.A'']" and timeout=0 and pod="?pod",
        unfolded Let_def, THEN conjunct2, THEN conjunct2, THEN conjunct2, THEN conjunct2, rule_format, of 0 "Err ''pod status unknown''"]
    by (auto simp: statusFails_def quietGateway_def initState_def NewStatusWriter_def)
  from 1 2 3 show ?thesis by simp
qed

text \<open>
  The log stream cannot be opened: the caller gets the empty message, exit code 0 and a
  status that is not failed.
\<close>

theorem RunTests_stream_error_counterexample:
  "streamLogs_resp (streamFails quietGateway)
       [StatusStart ''Starting test job: t1'', StartTests ''t1'' [''suite.A''] 600000000000, StatusSucceed] ''t1''
     = Some (Err ''stream error'')
   \<and> map_option fst (RunTests (streamFails quietGateway) ''t1'' [''suite.A''] 0 initState)
     = Some ([], 0, \<lparr>step = ''Starting test job: t1'', failed = False, errors = []\<rparr>)
   \<and> \<not> Failed \<lparr>step = ''Starting test job: t1'', failed = False, errors = []\<rparr>"
  by code_simp

section \<open>Resources by name or label\<close>

lemma fillNames_map:
  "length resources = i + length pods \<Longrightarrow> fillNames pods i resources = take i resources @ map Name pods"
proof (induction pods arbitrary: i resources)
  case Nil
  then show ?case by simp
next
  case (Cons pod pods)
  have "fillNames pods (Suc i) (resources[i := Name pod])
      = take (Suc i) (resources[i := Name pod]) @ map Name pods"
    using Cons.prems by (intro Cons.IH) simp
  also have "take (Suc i) (resources[i := Name pod]) = take i resources @ [Name pod]"
    using Cons.prems by (simp add: take_Suc_conv_app_nth)
  finally show ?case by simp
qed

text \<open>
  Claim C7.  \<open>GetResources name\<close> returns the one-element list \<open>[name]\<close> when the lookup by
  name returns a pod of exactly that name; when that lookup reports not-found, it returns
  the names of all pods listed for the label \<open>resource=name\<close>, and when that list is empty it
  fails with the error "unknown test resource name".
\<close>

theorem GetResources_lookup:
  "(getPod_resp g (calls s) (clusterID c) name = Inr pod \<and> Name pod = name \<longrightarrow>
      fst (GetResources c g name s) = Inr [name])
   \<and> (getPod_resp g (calls s) (clusterID c) name = Inl NotFound
        \<and> listPods_resp g (calls s @ [GetPod (clusterID c) name]) (clusterID c) (''resource='' @ name) = Inr pods \<longrightarrow>
      fst (GetResources c g name s)
        = (if pods = [] then Inl (Err (''unknown test resource '' @ name)) else Inr (map Name pods)))"
  by (simp add: GetResources_def getPod_def listPods_def IsNotFound_def fillNames_map)

theorem GetResources_lookup_witness:
  "fst (GetResources testCluster (withPods [''onos-cli''] ''resource=onos-topo'' [''onos-topo-1'', ''onos-topo-2''] quietGateway)
         ''onos-cli'' initState) = Inr [''onos-cli'']
   \<and> fst (GetResources testCluster (withPods [''onos-cli''] ''resource=onos-topo'' [''onos-topo-1'', ''onos-topo-2''] quietGateway)
         ''onos-topo'' initState) = Inr [''onos-topo-1'', ''onos-topo-2'']
   \<and> fst (GetResources testCluster (withPods [''onos-cli''] ''resource=onos-topo'' [''onos-topo-1'', ''onos-topo-2''] quietGateway)
         ''onos-gui'' initState) = Inl (Err ''unknown test resource onos-gui'')"
proof -
  let ?g = "withPods [''onos-cli''] ''resource=onos-topo'' [''onos-topo-1'', ''onos-topo-2''] quietGateway"
  have 1: "fst (GetResources testCluster ?g ''onos-cli'' initState) = Inr [''onos-cli'']"
    using GetResources_lookup[where g="?g" and s=initState and c=testCluster and name="''onos-cli''"
        and pod="podNamed ''onos-cli''", THEN conjunct1]
    by (simp add: withPods_def podNamed_def)
  have 2: "fst (GetResources testCluster ?g ''onos-topo'' initState) = Inr [''onos-topo-1'', ''onos-topo-2'']"
    using GetResources_lookup[where g="?g" and s=initState and c=testCluster and name="''onos-topo''"
        and pods="map podNamed [''onos-topo-1'', ''onos-topo-2'']", THEN conjunct2]
    by (simp add: withPods_def podNamed_def)
  have 3: "fst (GetResources testCluster ?g ''onos-gui'' initState) = Inl (Err ''unknown test resource onos-gui'')"
    using GetResources_lookup[where g="?g" and s=initState and c=testCluster and name="''onos-gui''"
        and pods="[]", THEN conjunct2]
    by (simp add: withPods_def podNamed_def)
  from 1 2 3 show ?thesis by simp
qed

end
